theory Spec2Isabelle
  imports Complex_Main
begin

section \<open>Python values and built-ins used by \<open>trainval_net.py\<close>\<close>

text \<open>
  The script is Python 3. Its integers are unbounded (\<open>int\<close>); its floating-point
  scalars (learning rate, decay factor, loss values) are values of \<open>real\<close>. Where \<open>*\<close>
  and \<open>+\<close> are written below they are exact where the interpreter rounds; the one product
  that is repeated, \<open>lr *= gamma\<close> of line 181, is not written with \<open>*\<close> but goes through the
  multiplication \<open>fw_float_mul\<close> of the framework record, which may round. Every exception
  the script's own expressions can raise is a value of \<open>error\<close>.
\<close>

datatype error =
    KeyError string
  | ZeroDivisionError
  | IndexError
  | ValueError
  | TypeError
  | AttributeError
  | RuntimeError

text \<open>\<open>xs[i]\<close>: a negative index counts from the end, out of range raises.\<close>

definition py_index :: "'a list \<Rightarrow> int \<Rightarrow> error + 'a" where
  "py_index xs i =
     (if 0 \<le> i \<and> i < int (length xs) then Inr (xs ! nat i)
      else if i < 0 \<and> - int (length xs) \<le> i then Inr (xs ! nat (int (length xs) + i))
      else Inl IndexError)"

text \<open>\<open>a // b\<close> and \<open>a % b\<close> on integers round towards minus infinity, as \<open>div\<close>
  and \<open>mod\<close> on \<open>int\<close> do; a zero divisor raises.\<close>

definition py_floordiv :: "int \<Rightarrow> int \<Rightarrow> error + int" where
  "py_floordiv a b = (if b = 0 then Inl ZeroDivisionError else Inr (a div b))"

definition py_mod :: "int \<Rightarrow> int \<Rightarrow> error + int" where
  "py_mod a b = (if b = 0 then Inl ZeroDivisionError else Inr (a mod b))"

text \<open>\<open>range(lo, hi)\<close>: empty when \<open>hi \<le> lo\<close>.\<close>

definition py_range :: "int \<Rightarrow> int \<Rightarrow> int list" where
  "py_range lo hi = map (\<lambda>k. lo + int k) [0..<nat (hi - lo)]"

text \<open>\<open>xs[:n]\<close> and \<open>xs[n:]\<close>: a negative bound counts from the end and is clipped at 0.\<close>

definition py_slice_to :: "'a list \<Rightarrow> int \<Rightarrow> 'a list" where
  "py_slice_to xs n = (if n < 0 then take (nat (int (length xs) + n)) xs else take (nat n) xs)"

definition py_slice_from :: "'a list \<Rightarrow> int \<Rightarrow> 'a list" where
  "py_slice_from xs n = (if n < 0 then drop (nat (int (length xs) + n)) xs else drop (nat n) xs)"

text \<open>\<open>s.startswith(p)\<close> and \<open>p in s\<close> on strings.\<close>

fun startswith :: "string \<Rightarrow> string \<Rightarrow> bool" where
  "startswith s [] = True"
| "startswith [] (p # ps) = False"
| "startswith (c # cs) (p # ps) = (c = p \<and> startswith cs ps)"

fun endswith_sep :: "string \<Rightarrow> bool" where
  "endswith_sep [] = False"
| "endswith_sep [c] = (c = CHR ''/'')"
| "endswith_sep (c # cs) = endswith_sep cs"

fun contains :: "string \<Rightarrow> string \<Rightarrow> bool" where
  "contains [] p = (p = [])"
| "contains (c # cs) p = (startswith (c # cs) p \<or> contains cs p)"

text \<open>\<open>str(n)\<close> and \<open>'{}'.format(n)\<close> for an integer: decimal digits, \<open>-\<close> for a negative.\<close>

definition digit_char :: "nat \<Rightarrow> char" where
  "digit_char d = (''0123456789'' ! d)"

fun str_nat :: "nat \<Rightarrow> string" where
  "str_nat n = (if n < 10 then [digit_char n] else str_nat (n div 10) @ [digit_char (n mod 10)])"

declare str_nat.simps [simp del]

definition str_int :: "int \<Rightarrow> string" where
  "str_int i = (if i < 0 then CHR ''-'' # str_nat (nat (- i)) else str_nat (nat i))"

text \<open>
  \<open>int(s)\<close> for a string, base 10, on ASCII input: surrounding whitespace is stripped, one
  sign is allowed, then digits, where single underscores may separate digits. Anything else
  raises \<open>ValueError\<close>; in particular \<open>int('')\<close> does.
\<close>

definition is_space :: "char \<Rightarrow> bool" where
  "is_space c = (c \<in> set [CHR '' '', CHR 0x09, CHR 0x0A, CHR 0x0B, CHR 0x0C, CHR 0x0D])"

definition is_digit :: "char \<Rightarrow> bool" where
  "is_digit c = (c \<in> set ''0123456789'')"

definition digit_val :: "char \<Rightarrow> nat" where
  "digit_val c = of_char c - 48"

definition strip :: "string \<Rightarrow> string" where
  "strip s = rev (dropWhile is_space (rev (dropWhile is_space s)))"

text \<open>\<open>parse_digits acc prev_digit s\<close>: \<open>prev_digit\<close> says whether the character just read
  was a digit, which is what an underscore needs before it and the end of input needs.\<close>

fun parse_digits :: "nat \<Rightarrow> bool \<Rightarrow> string \<Rightarrow> nat option" where
  "parse_digits acc prev [] = (if prev then Some acc else None)"
| "parse_digits acc prev (c # cs) =
     (if is_digit c then parse_digits (acc * 10 + digit_val c) True cs
      else if c = CHR ''_'' \<and> prev \<and> cs \<noteq> [] \<and> is_digit (hd cs) then parse_digits acc False cs
      else None)"

definition py_int :: "string \<Rightarrow> error + int" where
  "py_int s =
     (let t = strip s;
          (neg, u) = (case t of
                        c # cs \<Rightarrow> if c = CHR ''-'' then (True, cs)
                                  else if c = CHR ''+'' then (False, cs) else (False, t)
                      | [] \<Rightarrow> (False, t))
      in case parse_digits 0 False u of
           None \<Rightarrow> Inl ValueError
         | Some n \<Rightarrow> Inr (if neg then - int n else int n))"

text \<open>
  \<open>os.path.join(a, *p)\<close> on POSIX: a component that starts with \<open>/\<close> discards what came
  before it; otherwise components are joined by one \<open>/\<close>, none being added after an empty
  path or one that already ends with \<open>/\<close>.
\<close>

definition join_step :: "string \<Rightarrow> string \<Rightarrow> string" where
  "join_step path b =
     (if startswith b ''/'' then b
      else if path = [] \<or> endswith_sep path then path @ b
      else path @ ''/'' @ b)"

definition path_join :: "string \<Rightarrow> string list \<Rightarrow> string" where
  "path_join a p = foldl join_step a p"


section \<open>Configuration, arguments and the external framework\<close>

text \<open>
  \<open>cfg\<close> after \<open>cfg_from_file\<close> and \<open>cfg_fix\<close>, restricted to the entries the script reads.
  Nested keys are written with an underscore: \<open>cfg.TRAIN.MAX_EPOCH\<close> is \<open>TRAIN_MAX_EPOCH\<close>.
\<close>

record config =
  CUDA :: bool
  MGPU :: bool
  NUM_CLASSES :: int
  CLASSES :: "string list"
  EXT :: string
  POOLING_MODE :: string
  CIOD_GROUPS :: int
  CIOD_DISTILL_GROUP :: int
  CIOD_TOTAL_CLS :: int
  CIOD_TOTAL_PROTO :: int
  TRAIN_LEARNING_RATE :: real
  TRAIN_DOUBLE_BIAS :: bool
  TRAIN_BIAS_DECAY :: bool
  TRAIN_WEIGHT_DECAY :: real
  TRAIN_OPTIMIZER :: string
  TRAIN_MOMENTUM :: real
  TRAIN_BATCH_SIZE :: int
  TRAIN_MAX_EPOCH :: int
  TRAIN_LEARNING_RATE_DECAY_STEP :: int
  TRAIN_LEARNING_RATE_DECAY_GAMMA :: real
  TRAIN_DISPLAY :: int

text \<open>
  The result of \<open>parse_args\<close>. \<open>--save_dir\<close> is declared with \<open>nargs=argparse.REMAINDER\<close>
  and the default \<open>"results"\<close>: the attribute is a string when the option is absent and a
  list of strings when it is given.
\<close>

datatype save_dir = SaveDirStr string | SaveDirList "string list"

record arguments =
  args_session :: int
  args_group :: int
  args_dataset :: string
  args_net :: string
  args_large_scale :: bool
  args_class_agnostic :: bool
  args_use_tfboard :: bool
  args_save_dir :: save_dir

text \<open>The outputs of one forward pass that the script reads (it binds thirteen names and
  uses these six). A tensor is the list of its entries; \<open>cls_score\<close> has one row per region
  of interest and one column per class.\<close>

type_synonym tensor = "real list"

record fwd_out =
  rois_label :: "int list"
  cls_score :: "real list list"
  rpn_loss_cls :: tensor
  rpn_loss_bbox :: tensor
  RCNN_loss_cls :: tensor
  RCNN_loss_bbox :: tensor

text \<open>One entry of the \<open>params\<close> list handed to the optimizer's constructor; the parameter
  tensor is named by its key.\<close>

record param_group =
  pg_params :: "string list"
  pg_lr :: real
  pg_weight_decay :: real

text \<open>
  Everything the script imports and calls is a field of this record: the detector
  (\<open>'m\<close>), the optimizer object (\<open>'o\<close>), the roidb returned by \<open>combined_roidb\<close>
  (\<open>'r\<close>) and a batch of the data loader (\<open>'b\<close>) are opaque. The calls are taken to
  return; an exception raised inside the framework is outside this model.
  \<^item> \<open>fw_next_batch r bs n e i\<close> is the \<open>i\<close>-th value of \<open>next(data_iter)\<close> in epoch \<open>e\<close>,
    for the loader built over \<open>r\<close> with batch size \<open>bs\<close> and \<open>n\<close> classes;
  \<^item> \<open>fw_backward_step m o b l clip\<close> stands for \<open>optimizer.zero_grad()\<close>,
    \<open>loss.backward()\<close> on the loss \<open>l\<close> computed from batch \<open>b\<close>, \<open>clip_gradient(m, 10.)\<close>
    when \<open>clip\<close>, and \<open>optimizer.step()\<close>; it returns the updated detector and optimizer;
  \<^item> \<open>fw_float_mul x y\<close> is the interpreter's \<open>x * y\<close> on two floats. Nothing is assumed of
    it: on IEEE doubles it rounds and is not associative (\<open>double_mul\<close> below).
\<close>

record ('m, 'o, 'r, 'b) framework =
  fw_ciod_old_and_new :: "int \<Rightarrow> int \<Rightarrow> int \<Rightarrow> int list"
  fw_vgg16 :: "string list \<Rightarrow> bool \<Rightarrow> 'm"
  fw_resnet :: "string list \<Rightarrow> int \<Rightarrow> bool \<Rightarrow> 'm"
  fw_create_architecture :: "'m \<Rightarrow> 'm"
  fw_DataParallel :: "'m \<Rightarrow> 'm"
  fw_module :: "'m \<Rightarrow> 'm"
  fw_cuda :: "'m \<Rightarrow> 'm"
  fw_train :: "'m \<Rightarrow> 'm"
  fw_named_parameters :: "'m \<Rightarrow> (string \<times> bool) list"
  fw_Adam :: "param_group list \<Rightarrow> 'o"
  fw_SGD :: "param_group list \<Rightarrow> real \<Rightarrow> 'o"
  fw_set_learning_rate :: "'o \<Rightarrow> real \<Rightarrow> 'o"
  fw_adjust_learning_rate :: "'o \<Rightarrow> real \<Rightarrow> 'o"
  fw_combined_roidb :: "string \<Rightarrow> string \<Rightarrow> string list \<Rightarrow> string \<Rightarrow> 'r"
  fw_len :: "'r \<Rightarrow> nat"
  fw_next_batch :: "'r \<Rightarrow> int \<Rightarrow> int \<Rightarrow> int \<Rightarrow> int \<Rightarrow> 'b"
  fw_forward :: "'m \<Rightarrow> 'b \<Rightarrow> fwd_out"
  fw_cross_entropy :: "real list list \<Rightarrow> int list \<Rightarrow> tensor"
  fw_backward_step :: "'m \<Rightarrow> 'o \<Rightarrow> 'b \<Rightarrow> real \<Rightarrow> bool \<Rightarrow> 'm \<times> 'o"
  fw_float_mul :: "real \<Rightarrow> real \<Rightarrow> real"

section \<open>What a run does: checkpoints and the trace of calls\<close>

text \<open>The dictionary handed to \<open>save_checkpoint\<close>. \<open>ck_model\<close> and \<open>ck_optimizer\<close> are the
  objects whose \<open>state_dict()\<close> is stored.\<close>

record ('m, 'o) checkpoint =
  ck_session :: int
  ck_epoch :: int
  ck_model :: 'm
  ck_optimizer :: 'o
  ck_pooling_mode :: string
  ck_class_agnostic :: bool
  ck_cls_means :: "real list list"
  ck_cls_proto :: "string list list"

datatype arch = Vgg16 | Resnet int

datatype opt_kind = Adam | SGD real

text \<open>
  A run is observed through the calls it makes, in order. The first component of every
  event but \<open>EvMakedirs\<close> is the group the call belongs to.
  \<^item> \<open>EvNet g a cs cag m\<close>: the detector \<open>m\<close> was constructed by \<open>vgg16\<close> or \<open>resnet\<close> (\<open>a\<close>) on
    the class list \<open>cs\<close>;
  \<^item> \<open>EvOptimizer g k ps o\<close>: the optimizer \<open>o\<close> was constructed (\<open>k\<close>) from \<open>ps\<close>;
  \<^item> \<open>EvSetLR g lr\<close>: \<open>set_learning_rate(optimizer, lr)\<close>;
  \<^item> \<open>EvTrainMode g m\<close>: \<open>fasterRCNN.train()\<close>, \<open>m\<close> being the detector the loops start from;
  \<^item> \<open>EvRoidb g d s cs x\<close>: \<open>combined_roidb(d, s, classes=cs, ext=x)\<close>;
  \<^item> \<open>EvLoader g bs n\<close>: \<open>roibatchLoader\<close> and \<open>DataLoader\<close> built with batch size \<open>bs\<close>
    and \<open>n\<close> classes;
  \<^item> \<open>EvAdjust g e gamma\<close>: \<open>adjust_learning_rate(optimizer, gamma)\<close> in epoch \<open>e\<close>;
  \<^item> \<open>EvDataIter g e\<close>: \<open>data_iter = iter(dataloader)\<close> in epoch \<open>e\<close>;
  \<^item> \<open>EvIter g e i m b l\<close>: iteration \<open>i\<close> of epoch \<open>e\<close> ran the detector \<open>m\<close> on batch \<open>b\<close>
    and called \<open>backward()\<close> on the loss \<open>l\<close>;
  \<^item> \<open>EvDisplay g step lr l fg bg tfb\<close>: the progress line (and, when \<open>tfb\<close>, the
    tensorboard scalars);
  \<^item> \<open>EvSave g name ck\<close>: \<open>save_checkpoint(ck, name)\<close>.
\<close>

datatype ('m, 'o, 'b) event =
    EvMakedirs string
  | EvNet int arch "string list" bool 'm
  | EvOptimizer int opt_kind "param_group list" 'o
  | EvSetLR int real
  | EvTrainMode int 'm
  | EvRoidb int string string "string list" string
  | EvLoader int int int
  | EvAdjust int int real
  | EvDataIter int int
  | EvIter int int int 'm 'b real
  | EvDisplay int int real real nat nat bool
  | EvSave int string "('m, 'o) checkpoint"

text \<open>A computation yields the calls it made and either the exception that ended it or its
  value. \<open>bind_w\<close> sequences two computations; \<open>for_loop\<close> is a \<open>for\<close> statement whose
  body updates the loop-carried variables \<open>s\<close>.\<close>

type_synonym ('e, 'a) comp = "'e list \<times> (error + 'a)"

definition bind_w :: "('e, 'a) comp \<Rightarrow> ('a \<Rightarrow> ('e, 'c) comp) \<Rightarrow> ('e, 'c) comp" where
  "bind_w c f =
     (case c of
        (t, Inl err) \<Rightarrow> (t, Inl err)
      | (t, Inr a) \<Rightarrow> (case f a of (t', r) \<Rightarrow> (t @ t', r)))"

definition lift_e :: "error + 'a \<Rightarrow> ('e, 'a) comp" where
  "lift_e r = ([], r)"

definition emit :: "'e \<Rightarrow> ('e, unit) comp" where
  "emit ev = ([ev], Inr ())"

definition ret :: "'a \<Rightarrow> ('e, 'a) comp" where
  "ret a = ([], Inr a)"

primrec for_loop :: "('i \<Rightarrow> 's \<Rightarrow> ('e, 's) comp) \<Rightarrow> 'i list \<Rightarrow> 's \<Rightarrow> ('e, 's) comp" where
  "for_loop body [] = (\<lambda>s. ret s)"
| "for_loop body (x # xs) = (\<lambda>s. bind_w (body x s) (for_loop body xs))"


section \<open>The script\<close>

subsection \<open>Set-up before the group loop (lines 88 to 106)\<close>

text \<open>\<open>output_dir = os.path.join(args.save_dir, str(args.session), args.net, args.dataset)\<close>;
  \<open>os.path.join\<close> raises \<open>TypeError\<close> on a list.\<close>

definition output_dir_of :: "arguments \<Rightarrow> error + string" where
  "output_dir_of args =
     (case args_save_dir args of
        SaveDirStr s \<Rightarrow>
          Inr (path_join s [str_int (args_session args), args_net args, args_dataset args])
      | SaveDirList l \<Rightarrow> Inl TypeError)"

text \<open>\<open>torch.zeros(r, c)\<close>: an all-zero matrix; a negative dimension is refused.\<close>

definition torch_zeros :: "int \<Rightarrow> int \<Rightarrow> error + real list list" where
  "torch_zeros r c =
     (if r < 0 \<or> c < 0 then Inl RuntimeError
      else Inr (replicate (nat r) (replicate (nat c) 0)))"

text \<open>\<open>[[] for _ in range(cfg.CIOD.TOTAL_CLS + 1)]\<close>\<close>

definition init_class_proto :: "config \<Rightarrow> string list list" where
  "init_class_proto cfg = map (\<lambda>_. []) (py_range 0 (CIOD_TOTAL_CLS cfg + 1))"

text \<open>\<open>start_group, end_group\<close> (line 106).\<close>

definition group_bounds :: "config \<Rightarrow> arguments \<Rightarrow> int \<times> int" where
  "group_bounds cfg args =
     (if args_group args = - 1 then (0, CIOD_GROUPS cfg)
      else (args_group args, args_group args + 1))"

subsection \<open>Preparing one group (lines 110 to 171)\<close>

text \<open>Lines 114 to 120. \<open>int(args.net[3:])\<close> is evaluated before \<open>resnet\<close> is called.\<close>

definition get_net :: "('m, 'o, 'r, 'b) framework \<Rightarrow> config \<Rightarrow> arguments \<Rightarrow> error + arch \<times> 'm" where
  "get_net fw cfg args =
     (if args_net args = ''vgg16''
        then Inr (Vgg16, fw_vgg16 fw (CLASSES cfg) (args_class_agnostic args))
      else if startswith (args_net args) ''res''
        then (case py_int (py_slice_from (args_net args) 3) of
                Inl err \<Rightarrow> Inl err
              | Inr d \<Rightarrow> Inr (Resnet d, fw_resnet fw (CLASSES cfg) d (args_class_agnostic args)))
      else Inl (KeyError ''Unknown Network''))"

text \<open>Lines 122 to 127: \<open>create_architecture()\<close>, then on CUDA the optional
  \<open>nn.DataParallel\<close> wrapper and \<open>.cuda()\<close>.\<close>

definition place_net :: "('m, 'o, 'r, 'b) framework \<Rightarrow> config \<Rightarrow> 'm \<Rightarrow> 'm" where
  "place_net fw cfg m0 =
     (let m1 = fw_create_architecture fw m0
      in if CUDA cfg then fw_cuda fw (if MGPU cfg then fw_DataParallel fw m1 else m1) else m1)"

text \<open>
  Lines 130 to 143, over the items of \<open>dict(fasterRCNN.named_parameters())\<close> (key and
  \<open>requires_grad\<close>), \<open>ith\<close> being the index \<open>enumerate\<close> gives. \<open>cfg.TRAIN.DOUBLE_BIAS + 1\<close>
  adds a boolean to 1; \<open>BIAS_DECAY and WEIGHT_DECAY or 0\<close> is \<open>WEIGHT_DECAY\<close> when
  \<open>BIAS_DECAY\<close> holds and 0 otherwise. Returns \<open>params\<close> and \<open>special_params_index\<close>.
\<close>

fun build_params ::
  "config \<Rightarrow> real \<Rightarrow> nat \<Rightarrow> (string \<times> bool) list \<Rightarrow> param_group list \<times> nat list" where
  "build_params cfg l ith [] = ([], [])"
| "build_params cfg l ith ((key, requires_grad) # rest) =
     (let (params, special) = build_params cfg l (ith + 1) rest
      in if requires_grad
         then ((if contains key ''bias''
                then \<lparr>pg_params = [key],
                      pg_lr = l * (if TRAIN_DOUBLE_BIAS cfg then 2 else 1),
                      pg_weight_decay = (if TRAIN_BIAS_DECAY cfg then TRAIN_WEIGHT_DECAY cfg else 0)\<rparr>
                else \<lparr>pg_params = [key], pg_lr = l, pg_weight_decay = TRAIN_WEIGHT_DECAY cfg\<rparr>)
               # params,
               if contains key ''RCNN_rpn.RPN_cls_score'' then ith # special else special)
         else (params, special))"

text \<open>Lines 145 to 151.\<close>

definition get_optimizer ::
  "('m, 'o, 'r, 'b) framework \<Rightarrow> config \<Rightarrow> param_group list \<Rightarrow> error + opt_kind \<times> 'o" where
  "get_optimizer fw cfg params =
     (if TRAIN_OPTIMIZER cfg = ''adam'' then Inr (Adam, fw_Adam fw params)
      else if TRAIN_OPTIMIZER cfg = ''sgd''
        then Inr (SGD (TRAIN_MOMENTUM cfg), fw_SGD fw params (TRAIN_MOMENTUM cfg))
      else Inl (KeyError ''Unknown Optimizer''))"

text \<open>Lines 153 to 155: the rate handed to \<open>set_learning_rate\<close>.\<close>

definition initial_lr :: "config \<Rightarrow> real" where
  "initial_lr cfg =
     (if TRAIN_OPTIMIZER cfg = ''adam'' then TRAIN_LEARNING_RATE cfg * (1 / 10)
      else TRAIN_LEARNING_RATE cfg)"

text \<open>\<open>"trainvalStep{}a".format(group)\<close>\<close>

definition group_split :: "int \<Rightarrow> string" where
  "group_split g = ''trainvalStep'' @ str_int g @ ''a''"

text \<open>The variables the epoch and iteration loops update.\<close>

record ('m, 'o) tstate =
  fasterRCNN :: 'm
  optimizer :: 'o
  lr :: real
  tot_step :: int
  loss_temp :: real

text \<open>What the preparation of a group leaves for the loops.\<close>

record ('m, 'o, 'r) prepared =
  now_cls_low :: int
  now_cls_high :: int
  max_proto :: int
  roidb :: 'r
  train_size :: int
  iters_per_epoch :: int
  start_state :: "('m, 'o) tstate"

definition group_prepare ::
  "('m, 'o, 'r, 'b) framework \<Rightarrow> config \<Rightarrow> arguments \<Rightarrow> int list \<Rightarrow> int \<Rightarrow>
     (('m, 'o, 'b) event, ('m, 'o, 'r) prepared) comp" where
  "group_prepare fw cfg args group_cls g =
     bind_w (lift_e (py_index group_cls g)) (\<lambda>low.
     bind_w (lift_e (py_index group_cls (g + 1))) (\<lambda>high.
     bind_w (lift_e (py_floordiv (CIOD_TOTAL_PROTO cfg) (high - 1))) (\<lambda>q.
     bind_w (lift_e (get_net fw cfg args)) (\<lambda>(a, m0).
     bind_w (emit (EvNet g a (CLASSES cfg) (args_class_agnostic args) m0)) (\<lambda>_.
     let m2 = place_net fw cfg m0;
         (params, special_params_index) =
            build_params cfg (TRAIN_LEARNING_RATE cfg) 0 (fw_named_parameters fw m2)
     in
     bind_w (lift_e (get_optimizer fw cfg params)) (\<lambda>(k, opt0).
     bind_w (emit (EvOptimizer g k params opt0)) (\<lambda>_.
     bind_w (emit (EvSetLR g (initial_lr cfg))) (\<lambda>_.
     let opt1 = fw_set_learning_rate fw opt0 (initial_lr cfg);
         m3 = fw_train fw m2
     in
     bind_w (emit (EvTrainMode g m3)) (\<lambda>_.
     let classes = py_slice_to (CLASSES cfg) high;
         split = group_split g;
         r = fw_combined_roidb fw (args_dataset args) split classes (EXT cfg);
         n = int (fw_len fw r)
     in
     bind_w (emit (EvRoidb g (args_dataset args) split classes (EXT cfg))) (\<lambda>_.
     bind_w (emit (EvLoader g (TRAIN_BATCH_SIZE cfg) high)) (\<lambda>_.
     bind_w (lift_e (py_floordiv n (TRAIN_BATCH_SIZE cfg))) (\<lambda>iters.
     ret \<lparr>now_cls_low = low, now_cls_high = high, max_proto = max 1 q, roidb = r,
          train_size = n, iters_per_epoch = iters,
          start_state = \<lparr>fasterRCNN = m3, optimizer = opt1, lr = initial_lr cfg,
                         tot_step = 0, loss_temp = 0\<rparr>\<rparr>))))))))))))"

subsection \<open>One iteration (lines 185 to 241)\<close>

text \<open>\<open>t.mean()\<close>\<close>

definition tensor_mean :: "tensor \<Rightarrow> real" where
  "tensor_mean t = sum_list t / real (length t)"

text \<open>\<open>cls_score[..., :n]\<close>: the first columns of every row.\<close>

definition slice_cols :: "real list list \<Rightarrow> int \<Rightarrow> real list list" where
  "slice_cols score n = map (\<lambda>row. py_slice_to row n) score"

text \<open>Lines 200 to 202: the loss of an iteration from the outputs of the forward pass.\<close>

definition iter_loss :: "('m, 'o, 'r, 'b) framework \<Rightarrow> int \<Rightarrow> fwd_out \<Rightarrow> real" where
  "iter_loss fw high out =
     (let RCNN_loss_cls' = fw_cross_entropy fw (slice_cols (cls_score out) high) (rois_label out)
      in tensor_mean (rpn_loss_cls out) + tensor_mean (rpn_loss_bbox out)
         + tensor_mean RCNN_loss_cls' + tensor_mean (RCNN_loss_bbox out))"

definition train_iter ::
  "('m, 'o, 'r, 'b) framework \<Rightarrow> config \<Rightarrow> arguments \<Rightarrow> int \<Rightarrow> ('m, 'o, 'r) prepared \<Rightarrow> int \<Rightarrow>
     int \<Rightarrow> ('m, 'o) tstate \<Rightarrow> (('m, 'o, 'b) event, ('m, 'o) tstate) comp" where
  "train_iter fw cfg args g p epoch i st =
     (let step = tot_step st + 1;
          data = fw_next_batch fw (roidb p) (TRAIN_BATCH_SIZE cfg) (now_cls_high p) epoch i;
          out = fw_forward fw (fasterRCNN st) data;
          loss = iter_loss fw (now_cls_high p) out;
          acc = loss_temp st + loss;
          (m', o') = fw_backward_step fw (fasterRCNN st) (optimizer st) data loss
                       (args_net args = ''vgg16'');
          st' = st\<lparr>fasterRCNN := m', optimizer := o', tot_step := step, loss_temp := acc\<rparr>
      in
      bind_w (emit (EvIter g epoch i (fasterRCNN st) data loss)) (\<lambda>_.
      bind_w (lift_e (py_mod step (TRAIN_DISPLAY cfg))) (\<lambda>rem.
      if rem = 0 then
        (let shown = (if step > 0 then acc / real_of_int (TRAIN_DISPLAY cfg) else acc);
             fg_cnt = length (filter (\<lambda>l. l \<noteq> 0) (rois_label out));
             bg_cnt = length (rois_label out) - fg_cnt
         in bind_w (emit (EvDisplay g step (lr st) shown fg_cnt bg_cnt (args_use_tfboard args)))
              (\<lambda>_. ret (st'\<lparr>loss_temp := 0\<rparr>)))
      else ret st')))"

subsection \<open>One epoch (lines 177 to 184) and the epoch loop (line 176)\<close>

text \<open>\<open>epoch % STEP == 0 and epoch > 0\<close> evaluates the remainder first.\<close>

definition epoch_body ::
  "('m, 'o, 'r, 'b) framework \<Rightarrow> config \<Rightarrow> arguments \<Rightarrow> int \<Rightarrow> ('m, 'o, 'r) prepared \<Rightarrow> int \<Rightarrow>
     ('m, 'o) tstate \<Rightarrow> (('m, 'o, 'b) event, ('m, 'o) tstate) comp" where
  "epoch_body fw cfg args g p epoch st =
     (let st0 = st\<lparr>loss_temp := 0\<rparr> in
      bind_w (lift_e (py_mod epoch (TRAIN_LEARNING_RATE_DECAY_STEP cfg))) (\<lambda>rem.
      bind_w (if rem = 0 \<and> epoch > 0
              then bind_w (emit (EvAdjust g epoch (TRAIN_LEARNING_RATE_DECAY_GAMMA cfg)))
                     (\<lambda>_. ret (st0\<lparr>optimizer := fw_adjust_learning_rate fw (optimizer st0)
                                                   (TRAIN_LEARNING_RATE_DECAY_GAMMA cfg),
                                    lr := fw_float_mul fw (lr st0)
                                            (TRAIN_LEARNING_RATE_DECAY_GAMMA cfg)\<rparr>))
              else ret st0) (\<lambda>st1.
      bind_w (emit (EvDataIter g epoch)) (\<lambda>_.
      for_loop (train_iter fw cfg args g p epoch) (py_range 0 (iters_per_epoch p)) st1))))"

definition train_epochs ::
  "('m, 'o, 'r, 'b) framework \<Rightarrow> config \<Rightarrow> arguments \<Rightarrow> int \<Rightarrow> ('m, 'o, 'r) prepared \<Rightarrow>
     (('m, 'o, 'b) event, ('m, 'o) tstate) comp" where
  "train_epochs fw cfg args g p =
     for_loop (epoch_body fw cfg args g p) (py_range 0 (TRAIN_MAX_EPOCH cfg)) (start_state p)"

subsection \<open>Saving (lines 244 to 257), a whole group, and the group loop\<close>

text \<open>\<open>'faster_rcnn_{}_{}_{}_{}.pth'.format(args.session, args.net, args.dataset, group)\<close>
  and its place under \<open>output_dir\<close>.\<close>

definition checkpoint_file :: "arguments \<Rightarrow> int \<Rightarrow> string" where
  "checkpoint_file args g =
     ''faster_rcnn_'' @ str_int (args_session args) @ ''_'' @ args_net args @ ''_''
       @ args_dataset args @ ''_'' @ str_int g @ ''.pth''"

definition save_name_of :: "arguments \<Rightarrow> string \<Rightarrow> int \<Rightarrow> string" where
  "save_name_of args output_dir g = path_join output_dir [checkpoint_file args g]"

text \<open>\<open>(fasterRCNN.module if cfg.MGPU else fasterRCNN)\<close>: the detector has a \<open>module\<close>
  attribute only when line 126 wrapped it, which needs \<open>cfg.CUDA\<close> as well.\<close>

definition saved_model :: "('m, 'o, 'r, 'b) framework \<Rightarrow> config \<Rightarrow> 'm \<Rightarrow> error + 'm" where
  "saved_model fw cfg m =
     (if MGPU cfg then (if CUDA cfg then Inr (fw_module fw m) else Inl AttributeError)
      else Inr m)"

definition group_save ::
  "('m, 'o, 'r, 'b) framework \<Rightarrow> config \<Rightarrow> arguments \<Rightarrow> real list list \<Rightarrow> string list list \<Rightarrow>
     string \<Rightarrow> int \<Rightarrow> ('m, 'o) tstate \<Rightarrow> (('m, 'o, 'b) event, unit) comp" where
  "group_save fw cfg args class_means class_proto output_dir g st =
     bind_w (lift_e (saved_model fw cfg (fasterRCNN st))) (\<lambda>m.
     emit (EvSave g (save_name_of args output_dir g)
             \<lparr>ck_session = args_session args,
              ck_epoch = TRAIN_MAX_EPOCH cfg,
              ck_model = m,
              ck_optimizer = optimizer st,
              ck_pooling_mode = POOLING_MODE cfg,
              ck_class_agnostic = args_class_agnostic args,
              ck_cls_means = class_means,
              ck_cls_proto = class_proto\<rparr>))"

definition group_body ::
  "('m, 'o, 'r, 'b) framework \<Rightarrow> config \<Rightarrow> arguments \<Rightarrow> real list list \<Rightarrow> string list list \<Rightarrow>
     string \<Rightarrow> int list \<Rightarrow> int \<Rightarrow> (('m, 'o, 'b) event, unit) comp" where
  "group_body fw cfg args class_means class_proto output_dir group_cls g =
     bind_w (group_prepare fw cfg args group_cls g) (\<lambda>p.
     bind_w (train_epochs fw cfg args g p) (\<lambda>st.
     group_save fw cfg args class_means class_proto output_dir g st))"

text \<open>The script from line 88 on. Nothing but the trace is carried from one pass of the
  group loop to the next.\<close>

definition main :: "('m, 'o, 'r, 'b) framework \<Rightarrow> config \<Rightarrow> arguments \<Rightarrow> (('m, 'o, 'b) event, unit) comp" where
  "main fw cfg args =
     bind_w (lift_e (output_dir_of args)) (\<lambda>output_dir.
     bind_w (emit (EvMakedirs output_dir)) (\<lambda>_.
     bind_w (lift_e (torch_zeros 2048 (NUM_CLASSES cfg + 1))) (\<lambda>class_means.
     let class_proto = init_class_proto cfg;
         group_cls = fw_ciod_old_and_new fw (NUM_CLASSES cfg) (CIOD_GROUPS cfg)
                       (CIOD_DISTILL_GROUP cfg);
         (start_group, end_group) = group_bounds cfg args
     in for_loop (\<lambda>g _. group_body fw cfg args class_means class_proto output_dir group_cls g)
          (py_range start_group end_group) ())))"


section \<open>Reading a trace\<close>

text \<open>The list \<open>group_cls\<close> of line 102 and the groups the loop of line 109 visits.\<close>

definition group_cls_of :: "('m, 'o, 'r, 'b) framework \<Rightarrow> config \<Rightarrow> int list" where
  "group_cls_of fw cfg =
     fw_ciod_old_and_new fw (NUM_CLASSES cfg) (CIOD_GROUPS cfg) (CIOD_DISTILL_GROUP cfg)"

definition groups_to_run :: "config \<Rightarrow> arguments \<Rightarrow> int list" where
  "groups_to_run cfg args = py_range (fst (group_bounds cfg args)) (snd (group_bounds cfg args))"

text \<open>The \<open>params\<close> list of a group whose detector was constructed as \<open>m0\<close>.\<close>

definition group_params :: "('m, 'o, 'r, 'b) framework \<Rightarrow> config \<Rightarrow> 'm \<Rightarrow> param_group list" where
  "group_params fw cfg m0 =
     fst (build_params cfg (TRAIN_LEARNING_RATE cfg) 0 (fw_named_parameters fw (place_net fw cfg m0)))"

text \<open>The epochs at whose start the rate is decayed, in the words of the specification:
  \<open>e > 0\<close> and \<open>e mod STEP = 0\<close>; \<open>decay_epochs cfg E\<close> lists those below \<open>E\<close>.\<close>

definition decays_at :: "config \<Rightarrow> int \<Rightarrow> bool" where
  "decays_at cfg e = (e > 0 \<and> e mod TRAIN_LEARNING_RATE_DECAY_STEP cfg = 0)"

definition decay_epochs :: "config \<Rightarrow> int \<Rightarrow> int list" where
  "decay_epochs cfg E = filter (decays_at cfg) (py_range 0 E)"

text \<open>The configurations the specification calls supported.\<close>

definition net_known :: "arguments \<Rightarrow> bool" where
  "net_known args = (args_net args = ''vgg16'' \<or> startswith (args_net args) ''res'')"

definition optimizer_known :: "config \<Rightarrow> bool" where
  "optimizer_known cfg = (TRAIN_OPTIMIZER cfg = ''adam'' \<or> TRAIN_OPTIMIZER cfg = ''sgd'')"

text \<open>A path component that \<open>os.path.join\<close> joins with exactly one separator: not empty,
  not absolute, not ending with the separator.\<close>

definition plain :: "string \<Rightarrow> bool" where
  "plain c = (c \<noteq> [] \<and> \<not> startswith c ''/'' \<and> \<not> endswith_sep c)"

text \<open>The state the iterations of epoch \<open>e\<close> start from, in the words of the specification:
  at the start of an epoch with \<open>e > 0\<close> and \<open>e mod STEP = 0\<close> the rate is decayed by
  \<open>gamma\<close>, in the optimizer and in the script's \<open>lr\<close>; the running loss starts at 0.\<close>

definition epoch_start ::
  "('m, 'o, 'r, 'b) framework \<Rightarrow> config \<Rightarrow> int \<Rightarrow> ('m, 'o) tstate \<Rightarrow> ('m, 'o) tstate" where
  "epoch_start fw cfg e st =
     (if decays_at cfg e
      then st\<lparr>loss_temp := 0,
              optimizer := fw_adjust_learning_rate fw (optimizer st)
                             (TRAIN_LEARNING_RATE_DECAY_GAMMA cfg),
              lr := fw_float_mul fw (lr st) (TRAIN_LEARNING_RATE_DECAY_GAMMA cfg)\<rparr>
      else st\<lparr>loss_temp := 0\<rparr>)"

text \<open>The script's \<open>lr\<close> when a computation has ended without an exception.\<close>

definition final_lr :: "('e, ('m, 'o) tstate) comp \<Rightarrow> real option" where
  "final_lr c = (case snd c of Inl err \<Rightarrow> None | Inr st \<Rightarrow> Some (lr st))"

text \<open>Projections of single events; \<open>concat (map f t)\<close> collects them along a trace \<open>t\<close>.\<close>

fun iters_of :: "int \<Rightarrow> int \<Rightarrow> ('m, 'o, 'b) event \<Rightarrow> int list" where
  "iters_of g e (EvIter g' e' i m b l) = (if g' = g \<and> e' = e then [i] else [])"
| "iters_of g e _ = []"

fun epochs_of :: "('m, 'o, 'b) event \<Rightarrow> (int \<times> int) list" where
  "epochs_of (EvDataIter g e) = [(g, e)]"
| "epochs_of _ = []"

fun adjusts_of :: "('m, 'o, 'b) event \<Rightarrow> (int \<times> int \<times> real) list" where
  "adjusts_of (EvAdjust g e gamma) = [(g, e, gamma)]"
| "adjusts_of _ = []"

fun saves_of :: "('m, 'o, 'b) event \<Rightarrow> (int \<times> string \<times> ('m, 'o) checkpoint) list" where
  "saves_of (EvSave g name ck) = [(g, name, ck)]"
| "saves_of _ = []"

fun trained_of :: "('m, 'o, 'b) event \<Rightarrow> int list" where
  "trained_of (EvTrainMode g m) = [g]"
| "trained_of _ = []"

fun final_models_of :: "('m, 'o, 'b) event \<Rightarrow> (int \<times> 'm) list" where
  "final_models_of (EvSave g name ck) = [(g, ck_model ck)]"
| "final_models_of _ = []"

fun start_models_of :: "('m, 'o, 'b) event \<Rightarrow> (int \<times> 'm) list" where
  "start_models_of (EvTrainMode g m) = [(g, m)]"
| "start_models_of _ = []"

section \<open>A small instance\<close>

text \<open>
  A framework small enough to run the script on: the detector is the number of optimizer
  steps it has received, the optimizer is its learning rate, a roidb is its length and a
  batch is its position \<open>(epoch, iteration)\<close>. Three classes in two groups, three epochs,
  a decay every second epoch.
\<close>

definition demo_fw :: "(nat, real, nat, int \<times> int) framework" where
  "demo_fw = \<lparr>
     fw_ciod_old_and_new = (\<lambda>n g d. [1, 2, 3]),
     fw_vgg16 = (\<lambda>cs cag. 0),
     fw_resnet = (\<lambda>cs d cag. 0),
     fw_create_architecture = (\<lambda>m. m),
     fw_DataParallel = (\<lambda>m. m),
     fw_module = (\<lambda>m. m),
     fw_cuda = (\<lambda>m. m),
     fw_train = (\<lambda>m. m),
     fw_named_parameters = (\<lambda>m. [(''w.weight'', True), (''w.bias'', True)]),
     fw_Adam = (\<lambda>ps. 0),
     fw_SGD = (\<lambda>ps mom. 0),
     fw_set_learning_rate = (\<lambda>opt l. l),
     fw_adjust_learning_rate = (\<lambda>opt gamma. opt * gamma),
     fw_combined_roidb = (\<lambda>d s cs x. 2 * length cs),
     fw_len = (\<lambda>r. r),
     fw_next_batch = (\<lambda>r bs n e i. (e, i)),
     fw_forward = (\<lambda>m b. \<lparr>rois_label = [1, 0], cls_score = [[1, 2, 3], [4, 5, 6]],
                          rpn_loss_cls = [1], rpn_loss_bbox = [2], RCNN_loss_cls = [100],
                          RCNN_loss_bbox = [3]\<rparr>),
     fw_cross_entropy = (\<lambda>sc lab. [sum_list (concat sc)]),
     fw_backward_step = (\<lambda>m opt b l clip. (m + 1, opt)),
     fw_float_mul = (\<lambda>x y. x * y)\<rparr>"

definition demo_cfg :: config where
  "demo_cfg = \<lparr>CUDA = False, MGPU = False, NUM_CLASSES = 3, CLASSES = [''bg'', ''cat'', ''dog''],
     EXT = ''.jpg'', POOLING_MODE = ''align'', CIOD_GROUPS = 2, CIOD_DISTILL_GROUP = 0,
     CIOD_TOTAL_CLS = 2, CIOD_TOTAL_PROTO = 10, TRAIN_LEARNING_RATE = 1,
     TRAIN_DOUBLE_BIAS = True, TRAIN_BIAS_DECAY = False, TRAIN_WEIGHT_DECAY = 0,
     TRAIN_OPTIMIZER = ''sgd'', TRAIN_MOMENTUM = 1, TRAIN_BATCH_SIZE = 2,
     TRAIN_MAX_EPOCH = 3, TRAIN_LEARNING_RATE_DECAY_STEP = 2,
     TRAIN_LEARNING_RATE_DECAY_GAMMA = 1 / 2, TRAIN_DISPLAY = 100\<rparr>"

definition demo_args :: arguments where
  "demo_args = \<lparr>args_session = 1, args_group = - 1, args_dataset = ''2007'',
     args_net = ''res101'', args_large_scale = False, args_class_agnostic = False,
     args_use_tfboard = False, args_save_dir = SaveDirStr ''results''\<rparr>"

text \<open>The trace of the script on this instance (see \<open>demo_run\<close> below).\<close>

definition demo_params :: "param_group list" where
  "demo_params = [\<lparr>pg_params = [''w.weight''], pg_lr = 1, pg_weight_decay = 0\<rparr>,
                  \<lparr>pg_params = [''w.bias''], pg_lr = 2, pg_weight_decay = 0\<rparr>]"

definition demo_ck :: "nat \<Rightarrow> (nat, real) checkpoint" where
  "demo_ck m = \<lparr>ck_session = 1, ck_epoch = 3, ck_model = m, ck_optimizer = 1 / 2,
     ck_pooling_mode = ''align'', ck_class_agnostic = False,
     ck_cls_means = replicate 2048 (replicate 4 0), ck_cls_proto = [[], [], []]\<rparr>"

definition demo_trace :: "(nat, real, int \<times> int) event list" where
  "demo_trace =
    [EvMakedirs ''results/1/res101/2007'',
     EvNet 0 (Resnet 101) [''bg'', ''cat'', ''dog''] False 0,
     EvOptimizer 0 (SGD 1) demo_params 0,
     EvSetLR 0 1, EvTrainMode 0 0,
     EvRoidb 0 ''2007'' ''trainvalStep0a'' [''bg'', ''cat''] ''.jpg'',
     EvLoader 0 2 2,
     EvDataIter 0 0, EvIter 0 0 0 0 (0, 0) 18, EvIter 0 0 1 1 (0, 1) 18,
     EvDataIter 0 1, EvIter 0 1 0 2 (1, 0) 18, EvIter 0 1 1 3 (1, 1) 18,
     EvAdjust 0 2 (1 / 2),
     EvDataIter 0 2, EvIter 0 2 0 4 (2, 0) 18, EvIter 0 2 1 5 (2, 1) 18,
     EvSave 0 ''results/1/res101/2007/faster_rcnn_1_res101_2007_0.pth'' (demo_ck 6),
     EvNet 1 (Resnet 101) [''bg'', ''cat'', ''dog''] False 0,
     EvOptimizer 1 (SGD 1) demo_params 0,
     EvSetLR 1 1, EvTrainMode 1 0,
     EvRoidb 1 ''2007'' ''trainvalStep1a'' [''bg'', ''cat'', ''dog''] ''.jpg'',
     EvLoader 1 2 3,
     EvDataIter 1 0, EvIter 1 0 0 0 (0, 0) 27, EvIter 1 0 1 1 (0, 1) 27, EvIter 1 0 2 2 (0, 2) 27,
     EvDataIter 1 1, EvIter 1 1 0 3 (1, 0) 27, EvIter 1 1 1 4 (1, 1) 27, EvIter 1 1 2 5 (1, 2) 27,
     EvAdjust 1 2 (1 / 2),
     EvDataIter 1 2, EvIter 1 2 0 6 (2, 0) 27, EvIter 1 2 1 7 (2, 1) 27, EvIter 1 2 2 8 (2, 2) 27,
     EvSave 1 ''results/1/res101/2007/faster_rcnn_1_res101_2007_1.pth'' (demo_ck 9)]"

text \<open>What the preparation of group 0 leaves on this instance (see \<open>demo_prepare\<close>).\<close>

definition demo_prepared :: "(nat, real, nat) prepared" where
  "demo_prepared = \<lparr>now_cls_low = 1, now_cls_high = 2, max_proto = 10, roidb = 4,
     train_size = 4, iters_per_epoch = 2,
     start_state = \<lparr>fasterRCNN = 0, optimizer = 1, lr = 1, tot_step = 0, loss_temp = 0\<rparr>\<rparr>"

section \<open>Products of doubles\<close>

text \<open>
  The product of two IEEE 754 doubles with a result in the normal range: the exact product
  rounded to a 53-bit significand, ties to even. \<open>scale_to_53\<close> doubles or halves a positive
  number until it lies in \<open>[2^52, 2^53)\<close> and counts the steps; 2200 steps are more than any
  double needs.
\<close>

definition round_half_even :: "real \<Rightarrow> int" where
  "round_half_even m =
     (if m - of_int \<lfloor>m\<rfloor> < 1 / 2 then \<lfloor>m\<rfloor>
      else if 1 / 2 < m - of_int \<lfloor>m\<rfloor> then \<lfloor>m\<rfloor> + 1
      else if even \<lfloor>m\<rfloor> then \<lfloor>m\<rfloor> else \<lfloor>m\<rfloor> + 1)"

primrec scale_to_53 :: "nat \<Rightarrow> real \<Rightarrow> int \<Rightarrow> real \<times> int" where
  "scale_to_53 0 x e = (x, e)"
| "scale_to_53 (Suc fuel) x e =
     (if x < 2 ^ 52 then scale_to_53 fuel (x * 2) (e - 1)
      else if 2 ^ 53 \<le> x then scale_to_53 fuel (x / 2) (e + 1)
      else (x, e))"

fun unscale :: "real \<times> int \<Rightarrow> real" where
  "unscale (m, e) =
     (if 0 \<le> e then of_int (round_half_even m) * 2 ^ nat e
      else of_int (round_half_even m) / 2 ^ nat (- e))"

definition round_to_double :: "real \<Rightarrow> real" where
  "round_to_double x =
     (if x = 0 then 0
      else if x < 0 then - unscale (scale_to_53 2200 (- x) 0)
      else unscale (scale_to_53 2200 x 0))"

definition double_mul :: "real \<Rightarrow> real \<Rightarrow> real" where
  "double_mul x y = round_to_double (x * y)"

text \<open>The doubles that the literals \<open>0.001\<close> and \<open>0.1\<close> denote.\<close>

definition float_0_001 :: real where
  "float_0_001 = 1152921504606847 / 2 ^ 60"

definition float_0_1 :: real where
  "float_0_1 = 3602879701896397 / 2 ^ 55"

text \<open>The small instance on doubles: a learning rate of \<open>0.001\<close> decayed by \<open>0.1\<close> at every
  epoch after the first.\<close>

definition double_fw :: "(nat, real, nat, int \<times> int) framework" where
  "double_fw = demo_fw\<lparr>fw_float_mul := double_mul\<rparr>"

definition double_cfg :: config where
  "double_cfg = demo_cfg\<lparr>TRAIN_LEARNING_RATE := float_0_001,
                         TRAIN_LEARNING_RATE_DECAY_STEP := 1,
                         TRAIN_LEARNING_RATE_DECAY_GAMMA := float_0_1\<rparr>"

definition double_start :: "(nat, real) tstate" where
  "double_start = \<lparr>fasterRCNN = 0, optimizer = float_0_001, lr = float_0_001,
                    tot_step = 0, loss_temp = 0\<rparr>"

text \<open>The state after iteration 0 of epoch 0 of group 0 on the small instance.\<close>

definition demo_after_first_iter :: "(nat, real) tstate" where
  "demo_after_first_iter = \<lparr>fasterRCNN = 1, optimizer = 1, lr = 1, tot_step = 1, loss_temp = 18\<rparr>"




section \<open>Sequencing and loops\<close>

lemma fst_bind_w:
  "fst (bind_w c f) = (case snd c of Inl err \<Rightarrow> fst c | Inr a \<Rightarrow> fst c @ fst (f a))"
  by (cases c) (auto simp: bind_w_def split: sum.splits prod.splits)

lemma snd_bind_w:
  "snd (bind_w c f) = (case snd c of Inl err \<Rightarrow> Inl err | Inr a \<Rightarrow> snd (f a))"
  by (cases c) (auto simp: bind_w_def split: sum.splits prod.splits)

lemma bind_w_lift_e [simp]:
  "bind_w (lift_e r) f = (case r of Inl err \<Rightarrow> ([], Inl err) | Inr a \<Rightarrow> f a)"
  by (auto simp: bind_w_def lift_e_def split: sum.splits prod.splits)

lemma bind_w_emit [simp]: "bind_w (emit ev) f = (ev # fst (f ()), snd (f ()))"
  by (auto simp: bind_w_def emit_def split: sum.splits prod.splits)

lemma bind_w_ret [simp]: "bind_w (ret a) f = f a"
  by (auto simp: bind_w_def ret_def split: sum.splits prod.splits)

lemma bind_w_pair_Inr [simp]: "bind_w (t, Inr a) f = (t @ fst (f a), snd (f a))"
  by (simp add: bind_w_def split: prod.splits)

lemma bind_w_pair_Inl [simp]: "bind_w (t, Inl err) f = (t, Inl err)"
  by (simp add: bind_w_def)

lemma bind_w_Inr:
  "bind_w c f = (t, Inr b) \<longleftrightarrow>
     (\<exists>t1 a t2. c = (t1, Inr a) \<and> f a = (t2, Inr b) \<and> t = t1 @ t2)"
  by (cases c) (auto simp: bind_w_def split: sum.splits prod.splits)

lemma bind_w_Inl:
  "bind_w c f = (t, Inl err) \<longleftrightarrow>
     (c = (t, Inl err) \<or> (\<exists>t1 a t2. c = (t1, Inr a) \<and> f a = (t2, Inl err) \<and> t = t1 @ t2))"
  by (cases c) (auto simp: bind_w_def split: sum.splits prod.splits)

lemma ret_eq [simp]: "ret a = (t, r) \<longleftrightarrow> t = [] \<and> r = Inr a"
  by (auto simp: ret_def)

lemma fst_ret [simp]: "fst (ret a) = []"
  by (simp add: ret_def)

lemma snd_ret [simp]: "snd (ret a) = Inr a"
  by (simp add: ret_def)

lemma for_loop_Cons: "for_loop body (x # xs) s = bind_w (body x s) (for_loop body xs)"
  by simp

text \<open>Every event of a loop comes from some pass of its body.\<close>
lemma for_loop_events:
  "ev \<in> set (fst (for_loop body xs s)) \<Longrightarrow> \<exists>x \<in> set xs. \<exists>s'. ev \<in> set (fst (body x s'))"
proof (induction xs arbitrary: s)
  case Nil
  then show ?case by simp
next
  case (Cons x xs)
  show ?case
  proof (cases "snd (body x s)")
    case (Inl err)
    with Cons.prems have "ev \<in> set (fst (body x s))"
      by (simp add: fst_bind_w)
    then show ?thesis by auto
  next
    case (Inr s1)
    with Cons.prems have "ev \<in> set (fst (body x s)) \<or> ev \<in> set (fst (for_loop body xs s1))"
      by (simp add: fst_bind_w)
    then show ?thesis using Cons.IH by auto
  qed
qed

text \<open>What a projection collects along a completed loop, pass by pass.\<close>
lemma for_loop_proj:
  assumes "\<And>x s t s'. x \<in> set xs \<Longrightarrow> body x s = (t, Inr s') \<Longrightarrow> concat (map proj t) = f x"
    and "for_loop body xs s = (t, Inr s')"
  shows "concat (map proj t) = concat (map f xs)"
  using assms
proof (induction xs arbitrary: s t)
  case Nil
  then show ?case by simp
next
  case (Cons x xs)
  from Cons.prems(2) obtain t1 s1 t2 where
    b: "body x s = (t1, Inr s1)" and r: "for_loop body xs s1 = (t2, Inr s')" and t: "t = t1 @ t2"
    by (auto simp: bind_w_Inr)
  have "concat (map proj t1) = f x" using Cons.prems(1) b by simp
  moreover have "concat (map proj t2) = concat (map f xs)"
    using Cons.IH [OF _ r] Cons.prems(1) by simp
  ultimately show ?case using t by simp
qed

lemma for_loop_state:
  assumes "\<And>x s t s'. x \<in> set xs \<Longrightarrow> body x s = (t, Inr s') \<Longrightarrow> h s' = upd x (h s)"
    and "for_loop body xs s = (t, Inr s')"
  shows "h s' = fold upd xs (h s)"
  using assms
proof (induction xs arbitrary: s t)
  case Nil
  then show ?case by simp
next
  case (Cons x xs)
  from Cons.prems(2) obtain t1 s1 t2 where
    b: "body x s = (t1, Inr s1)" and r: "for_loop body xs s1 = (t2, Inr s')"
    by (auto simp: bind_w_Inr)
  have "h s1 = upd x (h s)" using Cons.prems(1) b by simp
  moreover have "h s' = fold upd xs (h s1)"
    using Cons.IH [OF _ r] Cons.prems(1) by simp
  ultimately show ?case by simp
qed

text \<open>A loop whose body never raises completes.\<close>
lemma for_loop_total:
  assumes "\<And>x s. x \<in> set xs \<Longrightarrow> \<exists>t s'. body x s = (t, Inr s')"
  shows "\<exists>t s'. for_loop body xs s = (t, Inr s')"
  using assms
proof (induction xs arbitrary: s)
  case Nil
  then show ?case by simp
next
  case (Cons x xs)
  from Cons.prems obtain t1 s1 where b: "body x s = (t1, Inr s1)" by fastforce
  from Cons.IH Cons.prems obtain t2 s2 where "for_loop body xs s1 = (t2, Inr s2)" by fastforce
  with b show ?case by (auto simp: bind_w_Inr)
qed

section \<open>One iteration\<close>

lemma train_iter_total:
  "TRAIN_DISPLAY cfg \<noteq> 0 \<Longrightarrow> \<exists>t st'. train_iter fw cfg args g p e i st = (t, Inr st')"
  by (simp add: train_iter_def Let_def py_mod_def split: prod.splits)

lemma train_iter_lr:
  "train_iter fw cfg args g p e i st = (t, Inr st') \<Longrightarrow> lr st' = lr st"
  by (auto simp: train_iter_def Let_def py_mod_def split: prod.splits if_splits)

lemma train_iter_step:
  assumes "train_iter fw cfg args g p e i st = (t, Inr st')"
  shows "(fasterRCNN st', optimizer st')
           = fw_backward_step fw (fasterRCNN st) (optimizer st)
               (fw_next_batch fw (roidb p) (TRAIN_BATCH_SIZE cfg) (now_cls_high p) e i)
               (iter_loss fw (now_cls_high p)
                  (fw_forward fw (fasterRCNN st)
                     (fw_next_batch fw (roidb p) (TRAIN_BATCH_SIZE cfg) (now_cls_high p) e i)))
               (args_net args = ''vgg16'')"
  using assms
  by (auto simp: train_iter_def Let_def py_mod_def split: prod.splits if_splits)

lemma train_iter_events:
  "ev \<in> set (fst (train_iter fw cfg args g p e i st)) \<Longrightarrow>
     (\<exists>b. ev = EvIter g e i (fasterRCNN st) b
               (iter_loss fw (now_cls_high p) (fw_forward fw (fasterRCNN st) b)))
     \<or> (\<exists>n l x fg bg tfb. ev = EvDisplay g n l x fg bg tfb)"
  by (auto simp: train_iter_def Let_def py_mod_def split: prod.splits if_splits)

lemma train_iter_iters:
  "train_iter fw cfg args g p e i st = (t, Inr st') \<Longrightarrow>
     concat (map (iters_of g' e') t) = (if g = g' \<and> e = e' then [i] else [])"
  by (auto simp: train_iter_def Let_def py_mod_def split: prod.splits if_splits)

lemma train_iter_no_epochs:
  "concat (map epochs_of (fst (train_iter fw cfg args g p e i st))) = []"
  by (auto simp: train_iter_def Let_def py_mod_def split: prod.splits if_splits)

lemma train_iter_no_adjusts:
  "concat (map adjusts_of (fst (train_iter fw cfg args g p e i st))) = []"
  by (auto simp: train_iter_def Let_def py_mod_def split: prod.splits if_splits)

lemma train_iter_no_saves:
  "concat (map saves_of (fst (train_iter fw cfg args g p e i st))) = []"
  by (auto simp: train_iter_def Let_def py_mod_def split: prod.splits if_splits)

section \<open>One epoch\<close>

lemma for_loop_no_proj:
  assumes "\<And>x s. concat (map proj (fst (body x s))) = []"
  shows "concat (map proj (fst (for_loop body xs s))) = []"
proof -
  have "proj ev = []" if "ev \<in> set (fst (for_loop body xs s))" for ev
  proof -
    from for_loop_events [OF that] obtain x s' where "ev \<in> set (fst (body x s'))" by blast
    with assms [of x s'] show ?thesis by auto
  qed
  then show ?thesis by auto
qed

lemma iter_loop_total:
  assumes "TRAIN_DISPLAY cfg \<noteq> 0"
  shows "\<exists>t st'. for_loop (train_iter fw cfg args g p e) xs st = (t, Inr st')"
  by (rule for_loop_total) (simp add: train_iter_total assms)

lemma iter_loop_lr:
  assumes "for_loop (train_iter fw cfg args g p e) xs st = (t, Inr st')"
  shows "lr st' = lr st"
proof -
  have "lr st' = fold (\<lambda>x r. r) xs (lr st)"
    by (rule for_loop_state [OF _ assms]) (rule train_iter_lr)
  moreover have "fold (\<lambda>x r. r) xs r = r" for r :: real
    by (induction xs) simp_all
  ultimately show ?thesis by simp
qed

lemma concat_map_single: "concat (map (\<lambda>x. if c then [x] else []) xs) = (if c then xs else [])"
  by (induction xs) simp_all

lemma iter_loop_iters:
  assumes "for_loop (train_iter fw cfg args g p e) xs st = (t, Inr st')"
  shows "concat (map (iters_of g' e') t) = (if g = g' \<and> e = e' then xs else [])"
proof -
  have "concat (map (iters_of g' e') t)
          = concat (map (\<lambda>i. if g = g' \<and> e = e' then [i] else []) xs)"
    by (rule for_loop_proj [OF _ assms]) (rule train_iter_iters)
  then show ?thesis by (simp add: concat_map_single)
qed

lemma epoch_body_total:
  assumes "TRAIN_LEARNING_RATE_DECAY_STEP cfg \<noteq> 0" and "TRAIN_DISPLAY cfg \<noteq> 0"
  shows "\<exists>t st'. epoch_body fw cfg args g p e st = (t, Inr st')"
proof -
  have "\<exists>t st'. for_loop (train_iter fw cfg args g p e) xs s = (t, Inr st')" for xs s
    using iter_loop_total [OF assms(2)] by blast
  then show ?thesis
    using assms(1)
    by (simp add: epoch_body_def Let_def py_mod_def prod_eq_iff)
qed

lemma epoch_body_Inr:
  assumes "epoch_body fw cfg args g p e st = (t, Inr st')"
  shows "TRAIN_LEARNING_RATE_DECAY_STEP cfg \<noteq> 0 \<and>
    (\<exists>t'. for_loop (train_iter fw cfg args g p e) (py_range 0 (iters_per_epoch p))
             (epoch_start fw cfg e st) = (t', Inr st')
          \<and> t = (if decays_at cfg e then [EvAdjust g e (TRAIN_LEARNING_RATE_DECAY_GAMMA cfg)] else [])
                 @ EvDataIter g e # t')"
  using assms
  by (auto simp: epoch_body_def epoch_start_def Let_def py_mod_def decays_at_def prod_eq_iff
           split: if_splits)

lemma epoch_body_lr:
  assumes "epoch_body fw cfg args g p e st = (t, Inr st')"
  shows "lr st' = (if decays_at cfg e
                   then fw_float_mul fw (lr st) (TRAIN_LEARNING_RATE_DECAY_GAMMA cfg) else lr st)"
proof -
  from epoch_body_Inr [OF assms] obtain t' where
    "for_loop (train_iter fw cfg args g p e) (py_range 0 (iters_per_epoch p))
       (epoch_start fw cfg e st) = (t', Inr st')"
    by blast
  from iter_loop_lr [OF this] show ?thesis by (simp add: epoch_start_def)
qed

lemma epoch_body_adjusts:
  assumes "epoch_body fw cfg args g p e st = (t, Inr st')"
  shows "concat (map adjusts_of t)
           = (if decays_at cfg e then [(g, e, TRAIN_LEARNING_RATE_DECAY_GAMMA cfg)] else [])"
  using epoch_body_Inr [OF assms]
    for_loop_no_proj [of adjusts_of "train_iter fw cfg args g p e", OF train_iter_no_adjusts]
  by (auto split: if_splits dest!: arg_cong [where f = fst] simp del: concat_eq_Nil_conv)

lemma epoch_body_epochs:
  assumes "epoch_body fw cfg args g p e st = (t, Inr st')"
  shows "concat (map epochs_of t) = [(g, e)]"
  using epoch_body_Inr [OF assms]
    for_loop_no_proj [of epochs_of "train_iter fw cfg args g p e", OF train_iter_no_epochs]
  by (auto split: if_splits dest!: arg_cong [where f = fst] simp del: concat_eq_Nil_conv)

lemma epoch_body_iters:
  assumes "epoch_body fw cfg args g p e st = (t, Inr st')"
  shows "concat (map (iters_of g' e') t)
           = (if g = g' \<and> e = e' then py_range 0 (iters_per_epoch p) else [])"
proof -
  from epoch_body_Inr [OF assms] obtain t' s1 where
    l: "for_loop (train_iter fw cfg args g p e) (py_range 0 (iters_per_epoch p)) s1 = (t', Inr st')"
    and t: "t = (if decays_at cfg e then [EvAdjust g e (TRAIN_LEARNING_RATE_DECAY_GAMMA cfg)] else [])
                 @ EvDataIter g e # t'"
    by blast
  from iter_loop_iters [OF l, of g' e'] show ?thesis by (simp add: t)
qed

section \<open>One group\<close>

lemma group_prepare_events:
  assumes "ev \<in> set (fst (group_prepare fw cfg args group_cls g))"
  shows "\<exists>low high a m0.
           py_index group_cls g = Inr low \<and> py_index group_cls (g + 1) = Inr high \<and> high \<noteq> 1 \<and>
           get_net fw cfg args = Inr (a, m0) \<and>
           (ev = EvNet g a (CLASSES cfg) (args_class_agnostic args) m0 \<or>
            (\<exists>k opt0. get_optimizer fw cfg (group_params fw cfg m0) = Inr (k, opt0) \<and>
               (ev = EvOptimizer g k (group_params fw cfg m0) opt0 \<or>
                ev = EvSetLR g (initial_lr cfg) \<or>
                ev = EvTrainMode g (fw_train fw (place_net fw cfg m0)) \<or>
                ev = EvRoidb g (args_dataset args) (group_split g)
                       (py_slice_to (CLASSES cfg) high) (EXT cfg) \<or>
                ev = EvLoader g (TRAIN_BATCH_SIZE cfg) high)))"
  using assms
  by (auto simp: group_prepare_def group_params_def group_split_def Let_def py_floordiv_def
        split_def split: sum.splits if_splits)

lemma group_prepare_Inr:
  assumes "group_prepare fw cfg args group_cls g = (t, Inr p)"
  shows "\<exists>low high a m0 k opt0.
           py_index group_cls g = Inr low \<and> py_index group_cls (g + 1) = Inr high \<and> high \<noteq> 1 \<and>
           get_net fw cfg args = Inr (a, m0) \<and>
           get_optimizer fw cfg (group_params fw cfg m0) = Inr (k, opt0) \<and>
           TRAIN_BATCH_SIZE cfg \<noteq> 0 \<and>
           t = [EvNet g a (CLASSES cfg) (args_class_agnostic args) m0,
                EvOptimizer g k (group_params fw cfg m0) opt0,
                EvSetLR g (initial_lr cfg),
                EvTrainMode g (fw_train fw (place_net fw cfg m0)),
                EvRoidb g (args_dataset args) (group_split g)
                       (py_slice_to (CLASSES cfg) high) (EXT cfg),
                EvLoader g (TRAIN_BATCH_SIZE cfg) high] \<and>
           now_cls_low p = low \<and> now_cls_high p = high \<and>
           roidb p = fw_combined_roidb fw (args_dataset args) (group_split g)
                       (py_slice_to (CLASSES cfg) high) (EXT cfg) \<and>
           train_size p = int (fw_len fw (roidb p)) \<and>
           iters_per_epoch p = train_size p div TRAIN_BATCH_SIZE cfg \<and>
           start_state p = \<lparr>fasterRCNN = fw_train fw (place_net fw cfg m0),
                             optimizer = fw_set_learning_rate fw opt0 (initial_lr cfg),
                             lr = initial_lr cfg, tot_step = 0, loss_temp = 0\<rparr>"
  using assms
  by (auto simp: group_prepare_def group_params_def group_split_def Let_def py_floordiv_def
        split_def split: sum.splits if_splits)

lemma epoch_body_events:
  assumes "ev \<in> set (fst (epoch_body fw cfg args g p e st))"
  shows "ev = EvAdjust g e (TRAIN_LEARNING_RATE_DECAY_GAMMA cfg) \<and> decays_at cfg e
         \<or> ev = EvDataIter g e
         \<or> (\<exists>i m b. ev = EvIter g e i m b (iter_loss fw (now_cls_high p) (fw_forward fw m b)))
         \<or> (\<exists>n l x fg bg tfb. ev = EvDisplay g n l x fg bg tfb)"
proof -
  have "ev = EvAdjust g e (TRAIN_LEARNING_RATE_DECAY_GAMMA cfg) \<and> decays_at cfg e
        \<or> ev = EvDataIter g e
        \<or> (\<exists>s. ev \<in> set (fst (for_loop (train_iter fw cfg args g p e)
                                  (py_range 0 (iters_per_epoch p)) s)))"
    using assms
    by (auto simp: epoch_body_def Let_def py_mod_def decays_at_def split: if_splits)
  then show ?thesis
    by (elim disjE exE) (auto dest!: for_loop_events train_iter_events)
qed

lemma train_epochs_events:
  assumes "ev \<in> set (fst (train_epochs fw cfg args g p))"
  shows "(\<exists>e. ev = EvAdjust g e (TRAIN_LEARNING_RATE_DECAY_GAMMA cfg) \<and> decays_at cfg e)
         \<or> (\<exists>e. ev = EvDataIter g e)
         \<or> (\<exists>e i m b. ev = EvIter g e i m b (iter_loss fw (now_cls_high p) (fw_forward fw m b)))
         \<or> (\<exists>n l x fg bg tfb. ev = EvDisplay g n l x fg bg tfb)"
proof -
  from assms obtain e s where "ev \<in> set (fst (epoch_body fw cfg args g p e s))"
    unfolding train_epochs_def by (blast dest: for_loop_events)
  from epoch_body_events [OF this] show ?thesis by blast
qed

lemma group_save_events:
  assumes "ev \<in> set (fst (group_save fw cfg args cm cp dir g st))"
  shows "\<exists>ck. ev = EvSave g (save_name_of args dir g) ck \<and> ck_epoch ck = TRAIN_MAX_EPOCH cfg \<and>
           ck_cls_means ck = cm \<and> ck_cls_proto ck = cp \<and> ck_session ck = args_session args"
  using assms by (auto simp: group_save_def emit_def split: sum.splits)

lemma group_body_events:
  assumes "ev \<in> set (fst (group_body fw cfg args cm cp dir group_cls g))"
  shows "ev \<in> set (fst (group_prepare fw cfg args group_cls g))
         \<or> (\<exists>t0 p. group_prepare fw cfg args group_cls g = (t0, Inr p) \<and>
               (ev \<in> set (fst (train_epochs fw cfg args g p))
                \<or> (\<exists>t1 st. train_epochs fw cfg args g p = (t1, Inr st) \<and>
                      ev \<in> set (fst (group_save fw cfg args cm cp dir g st)))))"
proof (cases "group_prepare fw cfg args group_cls g")
  case (Pair t0 r0)
  show ?thesis
  proof (cases r0)
    case (Inl err)
    with Pair assms show ?thesis by (simp add: group_body_def)
  next
    case (Inr p)
    show ?thesis
    proof (cases "train_epochs fw cfg args g p")
      case tr: (Pair t1 r1)
      show ?thesis
        using assms Pair Inr tr
        by (cases r1) (auto simp: group_body_def fst_bind_w)
    qed
  qed
qed

lemma main_events:
  assumes "ev \<in> set (fst (main fw cfg args))"
  shows "\<exists>dir. output_dir_of args = Inr dir \<and>
           (ev = EvMakedirs dir \<or>
            (\<exists>cm. torch_zeros 2048 (NUM_CLASSES cfg + 1) = Inr cm \<and>
               (\<exists>g \<in> set (groups_to_run cfg args).
                   ev \<in> set (fst (group_body fw cfg args cm (init_class_proto cfg) dir
                                     (group_cls_of fw cfg) g)))))"
  using assms
  by (auto simp: main_def groups_to_run_def group_cls_of_def Let_def split_def
           split: sum.splits dest!: for_loop_events)

lemma main_group_events:
  assumes "ev \<in> set (fst (main fw cfg args))" and "\<And>dir. ev \<noteq> EvMakedirs dir"
  shows "\<exists>dir cm. \<exists>g \<in> set (groups_to_run cfg args).
           output_dir_of args = Inr dir \<and> torch_zeros 2048 (NUM_CLASSES cfg + 1) = Inr cm \<and>
           ev \<in> set (fst (group_body fw cfg args cm (init_class_proto cfg) dir (group_cls_of fw cfg) g))"
  using main_events [OF assms(1)] assms(2) by blast

lemma group_body_prepare_events:
  assumes "ev \<in> set (fst (group_body fw cfg args cm cp dir gc g))"
    and "\<And>e gamma. ev \<noteq> EvAdjust g e gamma" and "\<And>e. ev \<noteq> EvDataIter g e"
    and "\<And>e i m b l. ev \<noteq> EvIter g e i m b l"
    and "\<And>n l x fg bg tfb. ev \<noteq> EvDisplay g n l x fg bg tfb"
    and "\<And>n ck. ev \<noteq> EvSave g n ck"
  shows "ev \<in> set (fst (group_prepare fw cfg args gc g))"
proof -
  have "ev \<notin> set (fst (train_epochs fw cfg args g p))" for p
    using train_epochs_events [of ev fw cfg args g p] assms(2-5) by blast
  moreover have "ev \<notin> set (fst (group_save fw cfg args cm cp dir g st))" for st
    using group_save_events [of ev fw cfg args cm cp dir g st] assms(6) by blast
  ultimately show ?thesis
    using group_body_events [OF assms(1)] by blast
qed

lemma main_prepare_events:
  assumes a: "ev \<in> set (fst (main fw cfg args))" and b: "\<And>dir. ev \<noteq> EvMakedirs dir"
    and c: "\<And>g e gamma. ev \<noteq> EvAdjust g e gamma" "\<And>g e. ev \<noteq> EvDataIter g e"
      "\<And>g e i m b l. ev \<noteq> EvIter g e i m b l"
      "\<And>g n l x fg bg tfb. ev \<noteq> EvDisplay g n l x fg bg tfb" "\<And>g n ck. ev \<noteq> EvSave g n ck"
  shows "\<exists>g'. ev \<in> set (fst (group_prepare fw cfg args (group_cls_of fw cfg) g'))"
proof -
  from main_group_events [OF a b] obtain dir cm g' where
    gb: "ev \<in> set (fst (group_body fw cfg args cm (init_class_proto cfg) dir
                            (group_cls_of fw cfg) g'))"
    by auto
  have "ev \<in> set (fst (group_prepare fw cfg args (group_cls_of fw cfg) g'))"
    by (rule group_body_prepare_events [OF gb]) (rule c)+
  then show ?thesis ..
qed

lemma for_loop_head_events:
  assumes "ev \<in> set (fst (for_loop body (x # xs) s))"
  shows "ev \<in> set (fst (body x s)) \<or> (\<exists>y \<in> set xs. \<exists>s'. ev \<in> set (fst (body y s')))"
proof (cases "snd (body x s)")
  case (Inl err)
  with assms show ?thesis by (simp add: fst_bind_w)
next
  case (Inr s1)
  with assms have "ev \<in> set (fst (body x s)) \<or> ev \<in> set (fst (for_loop body xs s1))"
    by (simp add: fst_bind_w)
  then show ?thesis using for_loop_events [of ev body xs s1] by blast
qed

lemma py_range_0_Cons:
  assumes "n > 0"
  shows "\<exists>ys. py_range 0 n = 0 # ys \<and> (\<forall>y \<in> set ys. y > 0)"
proof -
  from assms obtain k where n: "nat n = Suc k" by (cases "nat n") auto
  have "[0..<Suc k] = 0 # [Suc 0..<Suc k]" by (rule upt_conv_Cons) simp
  then have "py_range 0 n = 0 # map int [Suc 0..<Suc k]"
    by (simp add: py_range_def n del: upt_Suc)
  moreover have "\<forall>y \<in> set (map int [Suc 0..<Suc k]). y > 0" by auto
  ultimately show ?thesis by blast
qed

lemma first_iter_model:
  assumes "EvIter g 0 0 m b l \<in> set (fst (train_epochs fw cfg args g' p))"
  shows "m = fasterRCNN (start_state p)"
proof -
  let ?E = "TRAIN_MAX_EPOCH cfg"
  let ?ev = "EvIter g 0 0 m b l"
  have pos: "?E > 0"
  proof (rule ccontr)
    assume "\<not> ?E > 0"
    then have "py_range 0 ?E = []" by (simp add: py_range_def)
    with assms show False by (simp add: train_epochs_def)
  qed
  from py_range_0_Cons [OF pos] obtain es where
    r: "py_range 0 ?E = 0 # es" and es: "\<forall>y \<in> set es. y > 0" by blast
  from assms have "?ev \<in> set (fst (for_loop (epoch_body fw cfg args g' p) (0 # es) (start_state p)))"
    unfolding train_epochs_def r .
  from for_loop_head_events [OF this]
  have "?ev \<in> set (fst (epoch_body fw cfg args g' p 0 (start_state p)))"
  proof
    assume "\<exists>y\<in>set es. \<exists>s'. ?ev \<in> set (fst (epoch_body fw cfg args g' p y s'))"
    then obtain y s' where y: "y \<in> set es"
      and "?ev \<in> set (fst (epoch_body fw cfg args g' p y s'))" by blast
    from epoch_body_events [OF this(2)] have "y = 0" by auto
    with es y show ?thesis by auto
  qed
  then have it: "?ev \<in> set (fst (for_loop (train_iter fw cfg args g' p 0)
            (py_range 0 (iters_per_epoch p)) ((start_state p)\<lparr>loss_temp := 0\<rparr>)))"
    by (auto simp: epoch_body_def Let_def py_mod_def split: if_splits)
  let ?n = "iters_per_epoch p"
  have posn: "?n > 0"
  proof (rule ccontr)
    assume "\<not> ?n > 0"
    then have "py_range 0 ?n = []" by (simp add: py_range_def)
    with it show False by simp
  qed
  from py_range_0_Cons [OF posn] obtain js where
    rn: "py_range 0 ?n = 0 # js" and js: "\<forall>y \<in> set js. y > 0" by blast
  from it have "?ev \<in> set (fst (for_loop (train_iter fw cfg args g' p 0)
            (0 # js) ((start_state p)\<lparr>loss_temp := 0\<rparr>)))"
    unfolding rn .
  from for_loop_head_events [OF this]
  have "?ev \<in> set (fst (train_iter fw cfg args g' p 0 0 ((start_state p)\<lparr>loss_temp := 0\<rparr>)))"
  proof
    assume "\<exists>y\<in>set js. \<exists>s'. ?ev \<in> set (fst (train_iter fw cfg args g' p 0 y s'))"
    then obtain y s' where y: "y \<in> set js"
      and "?ev \<in> set (fst (train_iter fw cfg args g' p 0 y s'))" by blast
    from train_iter_events [OF this(2)] have "y = 0" by auto
    with js y show ?thesis by auto
  qed
  from train_iter_events [OF this] show ?thesis by auto
qed

lemma torch_zeros_Inr: "torch_zeros r c = Inr cm \<Longrightarrow> cm = replicate (nat r) (replicate (nat c) 0)"
  by (auto simp: torch_zeros_def split: if_splits)

lemma init_class_proto_eq: "init_class_proto cfg = replicate (nat (CIOD_TOTAL_CLS cfg + 1)) []"
  by (simp add: init_class_proto_def py_range_def map_replicate_const)

lemma distinct_py_range: "distinct (py_range lo hi)"
  by (simp add: py_range_def distinct_map inj_on_def)

lemma set_py_range_0: "set (py_range 0 n) = {e. 0 \<le> e \<and> e < n}"
proof -
  have "e \<in> int ` {0..<nat n} \<longleftrightarrow> 0 \<le> e \<and> e < n" for e
  proof
    assume "e \<in> int ` {0..<nat n}"
    then show "0 \<le> e \<and> e < n" by auto
  next
    assume "0 \<le> e \<and> e < n"
    then have "nat e \<in> {0..<nat n}" and "e = int (nat e)" by auto
    then show "e \<in> int ` {0..<nat n}" by blast
  qed
  then show ?thesis by (auto simp: py_range_def)
qed

lemma length_py_range_0: "length (py_range 0 n) = nat n"
  by (simp add: py_range_def)

lemma concat_map_if_distinct:
  "distinct xs \<Longrightarrow> concat (map (\<lambda>x. if c \<and> x = e then L else []) xs) = (if c \<and> e \<in> set xs then L else [])"
  by (induction xs) auto

lemma concat_map_filter_single:
  "concat (map (\<lambda>x. if P x then [f x] else []) xs) = map f (filter P xs)"
  by (induction xs) simp_all

lemma fold_filter:
  "fold (\<lambda>e r. if P e then f e r else r) xs r = fold f (filter P xs) r"
  by (induction xs arbitrary: r) simp_all

lemma epoch_loop_total:
  assumes "TRAIN_LEARNING_RATE_DECAY_STEP cfg \<noteq> 0" and "TRAIN_DISPLAY cfg \<noteq> 0"
  shows "\<exists>t st. for_loop (epoch_body fw cfg args g p) xs st0 = (t, Inr st)"
  by (rule for_loop_total) (rule epoch_body_total [OF assms])

lemma train_epochs_epochs:
  assumes "train_epochs fw cfg args g p = (t, Inr st)"
  shows "concat (map epochs_of t) = map (\<lambda>e. (g, e)) (py_range 0 (TRAIN_MAX_EPOCH cfg))"
proof -
  have "concat (map epochs_of t) = concat (map (\<lambda>e. [(g, e)]) (py_range 0 (TRAIN_MAX_EPOCH cfg)))"
    by (rule for_loop_proj [OF _ assms [unfolded train_epochs_def]]) (rule epoch_body_epochs)
  then show ?thesis by (simp add: concat_map_singleton)
qed

lemma train_epochs_iters:
  assumes "train_epochs fw cfg args g p = (t, Inr st)"
  shows "concat (map (iters_of g' e') t)
           = (if g = g' \<and> 0 \<le> e' \<and> e' < TRAIN_MAX_EPOCH cfg then py_range 0 (iters_per_epoch p) else [])"
proof -
  have "concat (map (iters_of g' e') t)
          = concat (map (\<lambda>e. if g = g' \<and> e = e' then py_range 0 (iters_per_epoch p) else [])
                      (py_range 0 (TRAIN_MAX_EPOCH cfg)))"
    by (rule for_loop_proj [OF _ assms [unfolded train_epochs_def]]) (rule epoch_body_iters)
  then show ?thesis
    using concat_map_if_distinct [OF distinct_py_range, of "g = g'" e' "py_range 0 (iters_per_epoch p)" 0
            "TRAIN_MAX_EPOCH cfg"]
    by (simp add: set_py_range_0)
qed

section \<open>Exceptions of a group\<close>

lemma get_net_KeyError:
  "get_net fw cfg args = Inl (KeyError msg) \<longleftrightarrow> \<not> net_known args \<and> msg = ''Unknown Network''"
  by (auto simp: get_net_def net_known_def py_int_def Let_def split: sum.splits option.splits prod.splits)

lemma get_optimizer_Inl:
  "get_optimizer fw cfg ps = Inl err \<longleftrightarrow> \<not> optimizer_known cfg \<and> err = KeyError ''Unknown Optimizer''"
  by (auto simp: get_optimizer_def optimizer_known_def)

lemma group_prepare_unknown_net:
  assumes "py_index group_cls g = Inr low" and "py_index group_cls (g + 1) = Inr high" and "high \<noteq> 1"
    and "\<not> net_known args"
  shows "group_prepare fw cfg args group_cls g = ([], Inl (KeyError ''Unknown Network''))"
  using assms
  by (simp add: group_prepare_def py_floordiv_def get_net_def net_known_def)

lemma group_prepare_unknown_optimizer:
  assumes "py_index group_cls g = Inr low" and "py_index group_cls (g + 1) = Inr high" and "high \<noteq> 1"
    and "get_net fw cfg args = Inr (a, m0)" and "\<not> optimizer_known cfg"
  shows "group_prepare fw cfg args group_cls g
           = ([EvNet g a (CLASSES cfg) (args_class_agnostic args) m0],
              Inl (KeyError ''Unknown Optimizer''))"
  using assms
  by (simp add: group_prepare_def py_floordiv_def get_optimizer_def optimizer_known_def
        split_def Let_def)

lemma group_prepare_KeyError:
  assumes "group_prepare fw cfg args group_cls g = (t, Inl (KeyError msg))"
  shows "(msg = ''Unknown Network'' \<and> \<not> net_known args \<and> t = [])
         \<or> (msg = ''Unknown Optimizer'' \<and> \<not> optimizer_known cfg \<and>
             (\<exists>a m0. get_net fw cfg args = Inr (a, m0) \<and>
                t = [EvNet g a (CLASSES cfg) (args_class_agnostic args) m0]))"
proof -
  have g: "get_net fw cfg args = Inl (KeyError msg) \<Longrightarrow> \<not> net_known args \<and> msg = ''Unknown Network''"
    by (simp add: get_net_KeyError)
  show ?thesis
    using assms g
    by (auto simp: group_prepare_def py_floordiv_def py_index_def split_def Let_def
          get_optimizer_def optimizer_known_def
          split: sum.splits if_splits)
qed

lemma train_epochs_error:
  assumes "train_epochs fw cfg args g p = (t, Inl err)"
  shows "err = ZeroDivisionError"
proof -
  have it: "train_iter fw cfg args g p e i s = (t', Inl err') \<Longrightarrow> err' = ZeroDivisionError"
    for e i s t' err'
    by (auto simp: train_iter_def Let_def py_mod_def split: prod.splits if_splits)
  have il: "for_loop (train_iter fw cfg args g p e) xs s = (t', Inl err') \<Longrightarrow> err' = ZeroDivisionError"
    for e xs s t' err'
  proof (induction xs arbitrary: s t')
    case Nil
    then show ?case by simp
  next
    case (Cons x xs)
    then show ?case by (auto simp: bind_w_Inl dest: it)
  qed
  have il': "snd (for_loop (train_iter fw cfg args g p e) xs s) = Inl err' \<Longrightarrow> err' = ZeroDivisionError"
    for e xs s err'
    using il [of e xs s "fst (for_loop (train_iter fw cfg args g p e) xs s)" err']
    by (simp add: prod_eq_iff)
  have eb: "epoch_body fw cfg args g p e s = (t', Inl err') \<Longrightarrow> err' = ZeroDivisionError"
    for e s t' err'
    by (auto simp: epoch_body_def Let_def py_mod_def prod_eq_iff dest: il' split: if_splits)
  have "for_loop (epoch_body fw cfg args g p) xs s = (t', Inl err') \<Longrightarrow> err' = ZeroDivisionError"
    for xs s t' err'
  proof (induction xs arbitrary: s t')
    case Nil
    then show ?case by simp
  next
    case (Cons x xs)
    then show ?case by (auto simp: bind_w_Inl dest: eb)
  qed
  with assms show ?thesis unfolding train_epochs_def by blast
qed

lemma group_save_error:
  "group_save fw cfg args cm cp dir g st = (t, Inl err) \<Longrightarrow> err = AttributeError"
  by (auto simp: group_save_def saved_model_def emit_def split: if_splits)

section \<open>Paths\<close>

lemma endswith_sep_iff: "endswith_sep s \<longleftrightarrow> s \<noteq> [] \<and> last s = CHR ''/''"
  by (induction s rule: endswith_sep.induct) auto

lemma startswith_sep_iff: "startswith s ''/'' \<longleftrightarrow> s \<noteq> [] \<and> hd s = CHR ''/''"
  by (cases s) auto

lemma join_step_plain:
  assumes "p \<noteq> []" and "\<not> endswith_sep p" and "\<not> startswith b ''/''"
  shows "join_step p b = p @ ''/'' @ b"
  using assms by (simp add: join_step_def)

lemma endswith_sep_append: "b \<noteq> [] \<Longrightarrow> endswith_sep (a @ b) = endswith_sep b"
  by (simp add: endswith_sep_iff)

lemma set_str_nat: "set (str_nat n) \<subseteq> set ''0123456789''"
proof (induction n rule: str_nat.induct)
  case (1 n)
  have d: "digit_char k \<in> set ''0123456789''" if "k < 10" for k
  proof -
    from that have "k \<in> {0, 1, 2, 3, 4, 5, 6, 7, 8, 9}" by auto
    then show ?thesis by (auto simp: digit_char_def)
  qed
  show ?case
  proof (cases "n < 10")
    case True
    then show ?thesis using d [of n] by (subst str_nat.simps) simp
  next
    case False
    then show ?thesis using 1 d [of "n mod 10"] by (subst str_nat.simps) auto
  qed
qed

lemma str_nat_nonempty: "str_nat n \<noteq> []"
  by (subst str_nat.simps) simp

lemma plain_str_int: "plain (str_int i)"
proof -
  have ne: "str_nat n \<noteq> []" for n by (rule str_nat_nonempty)
  have l: "last (str_nat n) \<noteq> CHR ''/''" for n
  proof -
    have "last (str_nat n) \<in> set (str_nat n)" using ne by simp
    with set_str_nat [of n] show ?thesis by auto
  qed
  have h: "hd (str_nat n) \<noteq> CHR ''/''" for n
  proof -
    have "hd (str_nat n) \<in> set (str_nat n)" using ne by simp
    with set_str_nat [of n] show ?thesis by auto
  qed
  show ?thesis
    using ne l h
    by (auto simp: plain_def str_int_def endswith_sep_iff startswith_sep_iff)
qed

lemma path_join_append: "path_join (path_join a p) q = path_join a (p @ q)"
  by (simp add: path_join_def)

lemma path_join_plain:
  assumes "s \<noteq> []" and "\<not> endswith_sep s" and "plain a" and "plain b" and "plain c"
    and "\<not> startswith d ''/''"
  shows "path_join s [a, b, c, d] = s @ ''/'' @ a @ ''/'' @ b @ ''/'' @ c @ ''/'' @ d"
proof -
  have 1: "join_step s a = s @ ''/'' @ a"
    using assms by (simp add: join_step_plain plain_def)
  have e1: "\<not> endswith_sep (s @ ''/'' @ a)"
    using assms(3) endswith_sep_append [of a "s @ ''/''"] by (simp add: plain_def)
  have 2: "join_step (s @ ''/'' @ a) b = (s @ ''/'' @ a) @ ''/'' @ b"
    using assms(4) e1 by (intro join_step_plain) (simp_all add: plain_def)
  have e2: "\<not> endswith_sep ((s @ ''/'' @ a) @ ''/'' @ b)"
    using assms(4) endswith_sep_append [of b "(s @ ''/'' @ a) @ ''/''"] by (simp add: plain_def)
  have 3: "join_step ((s @ ''/'' @ a) @ ''/'' @ b) c = ((s @ ''/'' @ a) @ ''/'' @ b) @ ''/'' @ c"
    using assms(5) e2 by (intro join_step_plain) (simp_all add: plain_def)
  have e3: "\<not> endswith_sep (((s @ ''/'' @ a) @ ''/'' @ b) @ ''/'' @ c)"
    using assms(5) endswith_sep_append [of c "((s @ ''/'' @ a) @ ''/'' @ b) @ ''/''"]
    by (simp add: plain_def)
  have 4: "join_step (((s @ ''/'' @ a) @ ''/'' @ b) @ ''/'' @ c) d
             = (((s @ ''/'' @ a) @ ''/'' @ b) @ ''/'' @ c) @ ''/'' @ d"
    using assms(6) e3 by (intro join_step_plain) simp_all
  have "path_join s [a, b, c, d] = join_step (join_step (join_step (join_step s a) b) c) d"
    by (simp add: path_join_def)
  also have "\<dots> = (((s @ ''/'' @ a) @ ''/'' @ b) @ ''/'' @ c) @ ''/'' @ d"
    by (simp only: 1 2 3 4)
  finally show ?thesis by simp
qed

lemma checkpoint_file_not_absolute: "\<not> startswith (checkpoint_file args g) ''/''"
  by (simp add: checkpoint_file_def)

section \<open>The group loop\<close>

lemma for_loop_unit_Inr:
  assumes "for_loop (\<lambda>x _. f x) xs u = (t, Inr u')"
  shows "t = concat (map (\<lambda>x. fst (f x)) xs) \<and> (\<forall>x \<in> set xs. \<exists>v. snd (f x) = Inr v)"
  using assms
proof (induction xs arbitrary: t u)
  case Nil
  then show ?case by simp
next
  case (Cons x xs)
  from Cons.prems obtain t1 u1 t2 where
    b: "f x = (t1, Inr u1)" and r: "for_loop (\<lambda>x _. f x) xs u1 = (t2, Inr u')" and t: "t = t1 @ t2"
    by (auto simp: bind_w_Inr)
  from Cons.IH [OF r] b t show ?case by auto
qed

lemma for_loop_proj_prefix:
  assumes "\<And>x s t r. x \<in> set xs \<Longrightarrow> body x s = (t, r) \<Longrightarrow>
             concat (map proj t) = [x] \<or> (concat (map proj t) = [] \<and> (\<exists>e. r = Inl e))"
  shows "\<exists>k. concat (map proj (fst (for_loop body xs s))) = take k xs"
  using assms
proof (induction xs arbitrary: s)
  case Nil
  then show ?case by simp
next
  case (Cons x xs)
  obtain t1 r1 where b: "body x s = (t1, r1)" by (cases "body x s")
  from Cons.prems [OF _ b]
  have c: "concat (map proj t1) = [x] \<or> (concat (map proj t1) = [] \<and> (\<exists>e. r1 = Inl e))" by simp
  show ?case
  proof (cases r1)
    case (Inl e)
    with b have f: "fst (for_loop body (x # xs) s) = t1" by simp
    from c show ?thesis
    proof
      assume "concat (map proj t1) = [x]"
      then have "concat (map proj (fst (for_loop body (x # xs) s))) = take 1 (x # xs)"
        unfolding f by simp
      then show ?thesis ..
    next
      assume "concat (map proj t1) = [] \<and> (\<exists>e. r1 = Inl e)"
      then have "concat (map proj (fst (for_loop body (x # xs) s))) = take 0 (x # xs)"
        unfolding f by simp
      then show ?thesis ..
    qed
  next
    case (Inr s1)
    with c have p1: "concat (map proj t1) = [x]" by auto
    from Cons.IH [of s1] Cons.prems obtain k where
      k: "concat (map proj (fst (for_loop body xs s1))) = take k xs" by auto
    from b Inr have "fst (for_loop body (x # xs) s) = t1 @ fst (for_loop body xs s1)" by simp
    then have "concat (map proj (fst (for_loop body (x # xs) s))) = take (Suc k) (x # xs)"
      using p1 k by simp
    then show ?thesis ..
  qed
qed

lemma train_epochs_no_saves: "concat (map saves_of (fst (train_epochs fw cfg args g p))) = []"
proof -
  have "saves_of ev = []" if "ev \<in> set (fst (train_epochs fw cfg args g p))" for ev
    using train_epochs_events [OF that] by auto
  then show ?thesis by auto
qed

lemma train_epochs_no_trained: "concat (map trained_of (fst (train_epochs fw cfg args g p))) = []"
proof -
  have "trained_of ev = []" if "ev \<in> set (fst (train_epochs fw cfg args g p))" for ev
    using train_epochs_events [OF that] by auto
  then show ?thesis by auto
qed

lemma group_prepare_no_saves: "concat (map saves_of (fst (group_prepare fw cfg args gc g))) = []"
proof -
  have "saves_of ev = []" if "ev \<in> set (fst (group_prepare fw cfg args gc g))" for ev
    using group_prepare_events [OF that] by auto
  then show ?thesis by auto
qed

lemma group_save_cases:
  "group_save fw cfg args cm cp dir g st = ([], Inl AttributeError) \<or>
   (\<exists>ck. group_save fw cfg args cm cp dir g st = ([EvSave g (save_name_of args dir g) ck], Inr ())
      \<and> ck_epoch ck = TRAIN_MAX_EPOCH cfg)"
  by (auto simp: group_save_def saved_model_def emit_def)

lemma group_body_Inr:
  assumes "group_body fw cfg args cm cp dir gc g = (t, Inr u)"
  shows "\<exists>t0 p t1 st ck. group_prepare fw cfg args gc g = (t0, Inr p) \<and>
           train_epochs fw cfg args g p = (t1, Inr st) \<and>
           t = (t0 @ t1) @ [EvSave g (save_name_of args dir g) ck] \<and>
           ck_epoch ck = TRAIN_MAX_EPOCH cfg"
proof -
  from assms [unfolded group_body_def bind_w_Inr] obtain t0 p t1 st t2 where
    p: "group_prepare fw cfg args gc g = (t0, Inr p)"
    and e: "train_epochs fw cfg args g p = (t1, Inr st)"
    and s: "group_save fw cfg args cm cp dir g st = (t2, Inr u)"
    and t: "t = t0 @ t1 @ t2"
    by blast
  from group_save_cases [of fw cfg args cm cp dir g st] s obtain ck where
    "t2 = [EvSave g (save_name_of args dir g) ck]" "ck_epoch ck = TRAIN_MAX_EPOCH cfg"
    by auto
  with p e t show ?thesis by auto
qed

lemma group_body_Inl_no_saves:
  assumes "group_body fw cfg args cm cp dir gc g = (t, Inl err)"
  shows "concat (map saves_of t) = []"
proof -
  from assms [unfolded group_body_def bind_w_Inl]
  consider "group_prepare fw cfg args gc g = (t, Inl err)"
    | t0 p t1 where "group_prepare fw cfg args gc g = (t0, Inr p)"
        "train_epochs fw cfg args g p = (t1, Inl err)" "t = t0 @ t1"
    | t0 p t1 st t2 where "group_prepare fw cfg args gc g = (t0, Inr p)"
        "train_epochs fw cfg args g p = (t1, Inr st)"
        "group_save fw cfg args cm cp dir g st = (t2, Inl err)" "t = t0 @ t1 @ t2"
    by blast
  then show ?thesis
  proof cases
    case 1
    with group_prepare_no_saves [of fw cfg args gc g] show ?thesis by simp
  next
    case 2
    with group_prepare_no_saves [of fw cfg args gc g] train_epochs_no_saves [of fw cfg args g p]
    show ?thesis by simp
  next
    case 3
    from group_save_cases [of fw cfg args cm cp dir g st] 3(3) have "t2 = []" by auto
    with 3 group_prepare_no_saves [of fw cfg args gc g] train_epochs_no_saves [of fw cfg args g p]
    show ?thesis by simp
  qed
qed

lemma main_Inr:
  assumes "main fw cfg args = (t, Inr u)"
  shows "\<exists>dir cm. output_dir_of args = Inr dir \<and> torch_zeros 2048 (NUM_CLASSES cfg + 1) = Inr cm \<and>
           t = EvMakedirs dir #
               concat (map (\<lambda>g. fst (group_body fw cfg args cm (init_class_proto cfg) dir
                                        (group_cls_of fw cfg) g)) (groups_to_run cfg args)) \<and>
           (\<forall>g \<in> set (groups_to_run cfg args).
              \<exists>v. snd (group_body fw cfg args cm (init_class_proto cfg) dir (group_cls_of fw cfg) g)
                     = Inr v)"
proof -
  from assms obtain dir cm t' where
    d: "output_dir_of args = Inr dir" and z: "torch_zeros 2048 (NUM_CLASSES cfg + 1) = Inr cm"
    and l: "for_loop (\<lambda>g _. group_body fw cfg args cm (init_class_proto cfg) dir
                               (group_cls_of fw cfg) g) (groups_to_run cfg args) () = (t', Inr u)"
    and t: "t = EvMakedirs dir # t'"
    by (auto simp: main_def groups_to_run_def group_cls_of_def Let_def split_def prod_eq_iff
          split: sum.splits)
  from for_loop_unit_Inr [OF l] d z t show ?thesis by blast
qed

lemma group_prepare_trained:
  assumes "group_prepare fw cfg args gc g = (t0, r0)"
  shows "concat (map trained_of t0) = [g] \<or> (concat (map trained_of t0) = [] \<and> (\<exists>e. r0 = Inl e))"
  using assms
  by (auto simp: group_prepare_def Let_def py_floordiv_def split_def prod_eq_iff
        split: sum.splits if_splits)

lemma group_body_trained:
  assumes "group_body fw cfg args cm cp dir gc g = (t, r)"
  shows "concat (map trained_of t) = [g] \<or> (concat (map trained_of t) = [] \<and> (\<exists>e. r = Inl e))"
proof (cases "group_prepare fw cfg args gc g")
  case (Pair t0 r0)
  note tr = group_prepare_trained [OF Pair]
  show ?thesis
  proof (cases r0)
    case (Inl e)
    with Pair assms have "t = t0" "r = Inl e" by (simp_all add: group_body_def)
    with tr show ?thesis by auto
  next
    case (Inr p)
    with tr have t0: "concat (map trained_of t0) = [g]" by auto
    have sv: "concat (map trained_of (fst (group_save fw cfg args cm cp dir g st))) = []" for st
      using group_save_cases [of fw cfg args cm cp dir g st] by auto
    have "t = t0 @ fst (bind_w (train_epochs fw cfg args g p)
                          (group_save fw cfg args cm cp dir g))"
      using assms Pair Inr by (simp add: group_body_def)
    moreover have "concat (map trained_of (fst (bind_w (train_epochs fw cfg args g p)
                          (group_save fw cfg args cm cp dir g)))) = []"
      using train_epochs_no_trained [of fw cfg args g p] sv
      by (auto simp: fst_bind_w split: sum.splits)
    ultimately show ?thesis using t0 by simp
  qed
qed

lemma concat_map_concat: "concat (map f (concat xss)) = concat (map (\<lambda>xs. concat (map f xs)) xss)"
  by (induction xss) simp_all

lemma main_trained_prefix:
  "\<exists>k. concat (map trained_of (fst (main fw cfg args))) = take k (groups_to_run cfg args)"
proof -
  let ?body = "\<lambda>dir cm g (_ :: unit). group_body fw cfg args cm (init_class_proto cfg) dir
                               (group_cls_of fw cfg) g"
  have loop: "\<exists>k. concat (map trained_of (fst (for_loop (?body dir cm) (groups_to_run cfg args) ())))
                = take k (groups_to_run cfg args)" for dir cm
    by (rule for_loop_proj_prefix) (rule group_body_trained)
  show ?thesis
  proof (cases "output_dir_of args")
    case (Inl e)
    then have "concat (map trained_of (fst (main fw cfg args))) = take 0 (groups_to_run cfg args)"
      by (simp add: main_def)
    then show ?thesis ..
  next
    case dir: (Inr dir)
    show ?thesis
    proof (cases "torch_zeros 2048 (NUM_CLASSES cfg + 1)")
      case (Inl e)
      with dir have "concat (map trained_of (fst (main fw cfg args))) = take 0 (groups_to_run cfg args)"
        by (simp add: main_def)
      then show ?thesis ..
    next
      case (Inr cm)
      with dir have "concat (map trained_of (fst (main fw cfg args)))
          = concat (map trained_of (fst (for_loop (?body dir cm) (groups_to_run cfg args) ())))"
        by (simp add: main_def groups_to_run_def group_cls_of_def Let_def split_def)
      with loop [where dir = dir and cm = cm] show ?thesis by simp
    qed
  qed
qed

lemma main_trained_all:
  assumes "main fw cfg args = (t, Inr u)"
  shows "concat (map trained_of t) = groups_to_run cfg args"
proof -
  from main_Inr [OF assms] obtain dir cm where
    t: "t = EvMakedirs dir #
               concat (map (\<lambda>g. fst (group_body fw cfg args cm (init_class_proto cfg) dir
                                        (group_cls_of fw cfg) g)) (groups_to_run cfg args))"
    and ok: "\<forall>g \<in> set (groups_to_run cfg args).
              \<exists>v. snd (group_body fw cfg args cm (init_class_proto cfg) dir (group_cls_of fw cfg) g)
                     = Inr v"
    by blast
  have one: "concat (map trained_of (fst (group_body fw cfg args cm (init_class_proto cfg) dir
                                        (group_cls_of fw cfg) g))) = [g]"
    if "g \<in> set (groups_to_run cfg args)" for g
  proof -
    from ok that obtain v where
      "snd (group_body fw cfg args cm (init_class_proto cfg) dir (group_cls_of fw cfg) g) = Inr v"
      by blast
    with group_body_trained [OF prod.collapse [symmetric]] show ?thesis by fastforce
  qed
  have "concat (map trained_of t)
          = concat (map (\<lambda>g. concat (map trained_of (fst (group_body fw cfg args cm
                (init_class_proto cfg) dir (group_cls_of fw cfg) g)))) (groups_to_run cfg args))"
    by (simp add: t concat_map_concat o_def)
  also have "\<dots> = concat (map (\<lambda>g. [g]) (groups_to_run cfg args))"
    using one by (intro arg_cong [where f = concat] map_cong) simp_all
  finally show ?thesis by simp
qed

lemma output_dir_of_Inr:
  "output_dir_of args = Inr dir \<Longrightarrow>
     \<exists>s. args_save_dir args = SaveDirStr s \<and>
         dir = path_join s [str_int (args_session args), args_net args, args_dataset args]"
  by (auto simp: output_dir_of_def split: save_dir.splits)

lemma save_name_of_path:
  "save_name_of args (path_join s [a, b, c]) g = path_join s [a, b, c, checkpoint_file args g]"
  by (simp add: save_name_of_def path_join_append)

lemma main_checkpoints:
  assumes "main fw cfg args = (t, Inr u)"
  shows "\<exists>s tr. args_save_dir args = SaveDirStr s \<and>
           t = EvMakedirs (path_join s [str_int (args_session args), args_net args, args_dataset args])
               # concat (map tr (groups_to_run cfg args)) \<and>
           (\<forall>g \<in> set (groups_to_run cfg args). \<exists>t' ck.
               tr g = t' @ [EvSave g (path_join s [str_int (args_session args), args_net args,
                                          args_dataset args, checkpoint_file args g]) ck] \<and>
               concat (map saves_of t') = [] \<and> ck_epoch ck = TRAIN_MAX_EPOCH cfg)"
proof -
  from main_Inr [OF assms] obtain dir cm where
    d: "output_dir_of args = Inr dir"
    and t: "t = EvMakedirs dir #
               concat (map (\<lambda>g. fst (group_body fw cfg args cm (init_class_proto cfg) dir
                                        (group_cls_of fw cfg) g)) (groups_to_run cfg args))"
    and ok: "\<forall>g \<in> set (groups_to_run cfg args).
              \<exists>v. snd (group_body fw cfg args cm (init_class_proto cfg) dir (group_cls_of fw cfg) g)
                     = Inr v"
    by blast
  from output_dir_of_Inr [OF d] obtain s where
    s: "args_save_dir args = SaveDirStr s"
    and dir: "dir = path_join s [str_int (args_session args), args_net args, args_dataset args]"
    by blast
  let ?tr = "\<lambda>g. fst (group_body fw cfg args cm (init_class_proto cfg) dir (group_cls_of fw cfg) g)"
  have seg: "\<exists>t' ck. ?tr g = t' @ [EvSave g (path_join s [str_int (args_session args), args_net args,
                                          args_dataset args, checkpoint_file args g]) ck] \<and>
               concat (map saves_of t') = [] \<and> ck_epoch ck = TRAIN_MAX_EPOCH cfg"
    if "g \<in> set (groups_to_run cfg args)" for g
  proof -
    from ok that obtain v where
      "snd (group_body fw cfg args cm (init_class_proto cfg) dir (group_cls_of fw cfg) g) = Inr v"
      by blast
    then have "group_body fw cfg args cm (init_class_proto cfg) dir (group_cls_of fw cfg) g
                 = (?tr g, Inr v)"
      by (simp add: prod_eq_iff)
    from group_body_Inr [OF this] obtain t0 p t1 st ck where
      p: "group_prepare fw cfg args (group_cls_of fw cfg) g = (t0, Inr p)"
      and e: "train_epochs fw cfg args g p = (t1, Inr st)"
      and tr: "?tr g = (t0 @ t1) @ [EvSave g (save_name_of args dir g) ck]"
      and ck: "ck_epoch ck = TRAIN_MAX_EPOCH cfg"
      by blast
    have "concat (map saves_of (t0 @ t1)) = []"
      using group_prepare_no_saves [of fw cfg args "group_cls_of fw cfg" g]
        train_epochs_no_saves [of fw cfg args g p] p e
      by simp
    with tr ck show ?thesis
      unfolding dir save_name_of_path by blast
  qed
  from s t seg show ?thesis unfolding dir by blast
qed


lemma epoch_loop_rate:
  assumes "TRAIN_LEARNING_RATE_DECAY_STEP cfg \<noteq> 0" and "TRAIN_DISPLAY cfg \<noteq> 0"
  shows "\<exists>t st. for_loop (epoch_body fw cfg args g p) (py_range 0 E) st0 = (t, Inr st) \<and>
           concat (map adjusts_of t)
             = map (\<lambda>e. (g, e, TRAIN_LEARNING_RATE_DECAY_GAMMA cfg)) (decay_epochs cfg E) \<and>
           lr st = fold (\<lambda>e r. fw_float_mul fw r (TRAIN_LEARNING_RATE_DECAY_GAMMA cfg))
                     (decay_epochs cfg E) (lr st0)"
proof -
  let ?gamma = "TRAIN_LEARNING_RATE_DECAY_GAMMA cfg"
  from epoch_loop_total [OF assms] obtain t st where
    run: "for_loop (epoch_body fw cfg args g p) (py_range 0 E) st0 = (t, Inr st)" by blast
  have "concat (map adjusts_of t)
          = concat (map (\<lambda>e. if decays_at cfg e then [(g, e, ?gamma)] else []) (py_range 0 E))"
    by (rule for_loop_proj [OF _ run]) (rule epoch_body_adjusts)
  then have adj: "concat (map adjusts_of t) = map (\<lambda>e. (g, e, ?gamma)) (decay_epochs cfg E)"
    by (simp add: concat_map_filter_single decay_epochs_def)
  have "lr st = fold (\<lambda>e r. if decays_at cfg e then fw_float_mul fw r ?gamma else r)
                  (py_range 0 E) (lr st0)"
    by (rule for_loop_state [OF _ run]) (rule epoch_body_lr)
  then have "lr st = fold (\<lambda>e r. fw_float_mul fw r ?gamma) (decay_epochs cfg E) (lr st0)"
    by (simp add: fold_filter decay_epochs_def)
  with run adj show ?thesis by blast
qed



lemma group_save_stores:
  assumes "ev \<in> set (fst (group_save fw cfg args cm cp dir g st))"
  shows "\<exists>ck. ev = EvSave g (save_name_of args dir g) ck \<and>
           saved_model fw cfg (fasterRCNN st) = Inr (ck_model ck) \<and>
           ck_optimizer ck = optimizer st"
  using assms by (auto simp: group_save_def emit_def split: sum.splits)

lemma main_save_events:
  assumes "EvSave g n ck \<in> set (fst (main fw cfg args))"
  shows "\<exists>t0 p t1 st. group_prepare fw cfg args (group_cls_of fw cfg) g = (t0, Inr p) \<and>
           train_epochs fw cfg args g p = (t1, Inr st) \<and>
           saved_model fw cfg (fasterRCNN st) = Inr (ck_model ck) \<and>
           ck_optimizer ck = optimizer st"
proof -
  from main_group_events [OF assms] obtain dir cm g' where
    gb: "EvSave g n ck \<in> set (fst (group_body fw cfg args cm (init_class_proto cfg) dir
                                     (group_cls_of fw cfg) g'))"
    by auto
  from group_body_events [OF gb] show ?thesis
  proof (elim disjE exE conjE)
    assume "EvSave g n ck \<in> set (fst (group_prepare fw cfg args (group_cls_of fw cfg) g'))"
    from group_prepare_events [OF this] show ?thesis by auto
  next
    fix t0 p
    assume "EvSave g n ck \<in> set (fst (train_epochs fw cfg args g' p))"
    from train_epochs_events [OF this] show ?thesis by auto
  next
    fix t0 p t1 st
    assume p: "group_prepare fw cfg args (group_cls_of fw cfg) g' = (t0, Inr p)"
      and e: "train_epochs fw cfg args g' p = (t1, Inr st)"
      and s: "EvSave g n ck \<in> set (fst (group_save fw cfg args cm (init_class_proto cfg) dir g' st))"
    from group_save_stores [OF s] have "g = g'"
      and "saved_model fw cfg (fasterRCNN st) = Inr (ck_model ck)"
      and "ck_optimizer ck = optimizer st"
      by auto
    with p e show ?thesis by blast
  qed
qed

section \<open>Products of doubles\<close>

lemma scale_to_53_up:
  "2 ^ 52 \<le> x * 2 ^ k \<Longrightarrow> x * 2 ^ k < 2 ^ 53 \<Longrightarrow> k \<le> fuel \<Longrightarrow>
     scale_to_53 fuel x e = (x * 2 ^ k, e - int k)"
proof (induction k arbitrary: x fuel e)
  case 0
  then show ?case by (cases fuel) simp_all
next
  case (Suc k)
  from Suc.prems obtain f where f: "fuel = Suc f" and kf: "k \<le> f" by (cases fuel) auto
  have "(0 :: real) < 2 ^ 52" by simp
  from this Suc.prems(1) have "0 < x * 2 ^ Suc k" by (rule less_le_trans)
  then have xpos: "0 < x" by (simp add: zero_less_mult_iff)
  have "(1 :: real) \<le> 2 ^ k" by simp
  with xpos have "x * 2 * 1 \<le> x * 2 * 2 ^ k" by (intro mult_left_mono) simp_all
  with Suc.prems(2) have "x * 2 < 2 ^ 53" by (simp add: mult.assoc)
  then have x: "x < 2 ^ 52" by simp
  have "scale_to_53 f (x * 2) (e - 1) = (x * 2 * 2 ^ k, e - 1 - int k)"
    using Suc.prems kf by (intro Suc.IH) (simp_all add: mult.assoc)
  with x f show ?case by (simp add: mult.assoc)
qed

lemma round_to_double_small:
  assumes "0 < x" and "2 ^ 52 \<le> x * 2 ^ k" and "x * 2 ^ k < 2 ^ 53" and "0 < k" and "k \<le> 2200"
  shows "round_to_double x = of_int (round_half_even (x * 2 ^ k)) / 2 ^ k"
  using assms scale_to_53_up [of x k 2200 0]
  by (simp add: round_to_double_def)

lemma double_mul_small:
  assumes "0 < x * y" and "2 ^ 52 \<le> x * y * 2 ^ k" and "x * y * 2 ^ k < 2 ^ 53" and "0 < k"
    and "k \<le> 2200" and "round_half_even (x * y * 2 ^ k) = m"
  shows "double_mul x y = of_int m / 2 ^ k"
  using round_to_double_small [OF assms(1-5)] assms(6) by (simp add: double_mul_def)

lemma double_0_001_times_0_1: "double_mul float_0_001 float_0_1 = 7378697629483821 / 2 ^ 66"
  using double_mul_small [of float_0_001 float_0_1 66 7378697629483821]
  by (simp add: round_half_even_def float_0_001_def float_0_1_def)

lemma double_0_0001_times_0_1:
  "double_mul (7378697629483821 / 2 ^ 66) float_0_1 = 5902958103587057 / 2 ^ 69"
  using double_mul_small [of "7378697629483821 / 2 ^ 66" float_0_1 69 5902958103587057]
  by (simp add: round_half_even_def float_0_1_def)

lemma double_0_1_times_0_1: "double_mul float_0_1 float_0_1 = 1441151880758559 / 2 ^ 57"
  using double_mul_small [of float_0_1 float_0_1 59 5764607523034236]
  by (simp add: round_half_even_def float_0_1_def)

lemma double_0_001_times_0_01:
  "double_mul float_0_001 (1441151880758559 / 2 ^ 57) = 2951479051793529 / 2 ^ 68"
  using double_mul_small [of float_0_001 "1441151880758559 / 2 ^ 57" 69 5902958103587058]
  by (simp add: round_half_even_def float_0_001_def)

section \<open>The run of the small instance\<close>

lemma demo_run: "main demo_fw demo_cfg demo_args = (demo_trace, Inr ())"
  by code_simp

lemma demo_events: "fst (main demo_fw demo_cfg demo_args) = demo_trace"
  by (simp add: demo_run)

lemma demo_prepare:
  "group_prepare demo_fw demo_cfg demo_args (group_cls_of demo_fw demo_cfg) 0
     = (take 6 (tl demo_trace), Inr demo_prepared)"
  by code_simp

lemma demo_failing_group:
  "group_body demo_fw (demo_cfg\<lparr>TRAIN_DISPLAY := 0\<rparr>) demo_args [] [] ''out'' [1, 2, 3] 0
     = (take 8 (tl demo_trace), Inl ZeroDivisionError)"
  by code_simp

lemma demo_first_iter:
  "train_iter demo_fw demo_cfg demo_args 0 demo_prepared 0 0 (start_state demo_prepared)
     = ([EvIter 0 0 0 0 (0, 0) 18], Inr demo_after_first_iter)"
  by code_simp



section \<open>The loss of an iteration\<close>



section \<open>Classes of a group\<close>

text \<open>
  Claim C2, as stated, says that the training data and the detector of group \<open>g\<close> both use
  the classes \<open>cfg.CLASSES[:group_cls[g + 1]]\<close>. The detector does not: on the small
  instance, group 0 constructs it on all three classes while \<open>group_cls[1] = 2\<close>.
\<close>

theorem detector_classes_counterexample:
  "EvNet 0 (Resnet 101) [''bg'', ''cat'', ''dog''] False 0
      \<in> set (fst (main demo_fw demo_cfg demo_args)) \<and>
   py_index (group_cls_of demo_fw demo_cfg) (0 + 1) = Inr 2 \<and>
   py_slice_to (CLASSES demo_cfg) 2 \<noteq> [''bg'', ''cat'', ''dog'']"
proof -
  have "EvNet 0 (Resnet 101) [''bg'', ''cat'', ''dog''] False 0
      \<in> set (fst (main demo_fw demo_cfg demo_args))"
    by (simp add: demo_events demo_trace_def)
  moreover have "py_index (group_cls_of demo_fw demo_cfg) (0 + 1) = Inr 2"
    by code_simp
  moreover have "py_slice_to (CLASSES demo_cfg) 2 \<noteq> [''bg'', ''cat'', ''dog'']"
    by code_simp
  ultimately show ?thesis by blast
qed

text \<open>
  Claim C2, amended. In every run: \<open>combined_roidb\<close> is called for group \<open>g\<close> with the split
  \<open>trainvalStep{g}a\<close> and the classes \<open>cfg.CLASSES[:group_cls[g + 1]]\<close>; the data loader is
  built with \<open>group_cls[g + 1]\<close> classes; the detector is constructed on the whole of
  \<open>cfg.CLASSES\<close>; and a group that reaches its loops has \<open>now_cls_low = group_cls[g]\<close> and
  \<open>now_cls_high = group_cls[g + 1]\<close>, \<open>group_cls\<close> being what \<open>ciod_old_and_new\<close> returned.
\<close>

theorem classes_of_a_group:
  "(EvRoidb g d s cs x \<in> set (fst (main fw cfg args)) \<longrightarrow>
      (\<exists>high. py_index (group_cls_of fw cfg) (g + 1) = Inr high \<and>
          cs = py_slice_to (CLASSES cfg) high \<and> s = group_split g \<and> d = args_dataset args))
   \<and> (EvLoader g bs n \<in> set (fst (main fw cfg args)) \<longrightarrow>
         py_index (group_cls_of fw cfg) (g + 1) = Inr n \<and> bs = TRAIN_BATCH_SIZE cfg)
   \<and> (EvNet g a cs' cag m \<in> set (fst (main fw cfg args)) \<longrightarrow> cs' = CLASSES cfg)
   \<and> (group_prepare fw cfg args (group_cls_of fw cfg) g = (t, Inr p) \<longrightarrow>
         py_index (group_cls_of fw cfg) g = Inr (now_cls_low p) \<and>
         py_index (group_cls_of fw cfg) (g + 1) = Inr (now_cls_high p))"
proof -
  have 1: "\<exists>high. py_index (group_cls_of fw cfg) (g + 1) = Inr high \<and>
          cs = py_slice_to (CLASSES cfg) high \<and> s = group_split g \<and> d = args_dataset args"
    if a: "EvRoidb g d s cs x \<in> set (fst (main fw cfg args))"
  proof -
    from main_prepare_events [OF a] obtain g' where
      "EvRoidb g d s cs x \<in> set (fst (group_prepare fw cfg args (group_cls_of fw cfg) g'))"
      by auto
    from group_prepare_events [OF this] show ?thesis by auto
  qed
  have 2: "py_index (group_cls_of fw cfg) (g + 1) = Inr n \<and> bs = TRAIN_BATCH_SIZE cfg"
    if a: "EvLoader g bs n \<in> set (fst (main fw cfg args))"
  proof -
    from main_prepare_events [OF a] obtain g' where
      "EvLoader g bs n \<in> set (fst (group_prepare fw cfg args (group_cls_of fw cfg) g'))"
      by auto
    from group_prepare_events [OF this] show ?thesis by auto
  qed
  have 3: "cs' = CLASSES cfg" if a: "EvNet g a cs' cag m \<in> set (fst (main fw cfg args))"
  proof -
    from main_prepare_events [OF a] obtain g' where
      "EvNet g a cs' cag m \<in> set (fst (group_prepare fw cfg args (group_cls_of fw cfg) g'))"
      by auto
    from group_prepare_events [OF this] show ?thesis by auto
  qed
  have 4: "py_index (group_cls_of fw cfg) g = Inr (now_cls_low p) \<and>
         py_index (group_cls_of fw cfg) (g + 1) = Inr (now_cls_high p)"
    if "group_prepare fw cfg args (group_cls_of fw cfg) g = (t, Inr p)"
    using group_prepare_Inr [OF that] by auto
  from 1 2 3 4 show ?thesis by blast
qed

theorem classes_of_a_group_witness:
  "EvRoidb 0 ''2007'' ''trainvalStep0a'' [''bg'', ''cat''] ''.jpg''
      \<in> set (fst (main demo_fw demo_cfg demo_args)) \<and>
   (\<exists>high. py_index (group_cls_of demo_fw demo_cfg) (0 + 1) = Inr high \<and>
      [''bg'', ''cat''] = py_slice_to (CLASSES demo_cfg) high \<and>
      ''trainvalStep0a'' = group_split 0 \<and> ''2007'' = args_dataset demo_args) \<and>
   EvLoader 0 2 2 \<in> set (fst (main demo_fw demo_cfg demo_args)) \<and>
   py_index (group_cls_of demo_fw demo_cfg) (0 + 1) = Inr 2 \<and>
   EvNet 0 (Resnet 101) [''bg'', ''cat'', ''dog''] False 0
      \<in> set (fst (main demo_fw demo_cfg demo_args)) \<and>
   [''bg'', ''cat'', ''dog''] = CLASSES demo_cfg \<and>
   group_prepare demo_fw demo_cfg demo_args (group_cls_of demo_fw demo_cfg) 0
     = (take 6 (tl demo_trace), Inr demo_prepared) \<and>
   py_index (group_cls_of demo_fw demo_cfg) 0 = Inr (now_cls_low demo_prepared) \<and>
   py_index (group_cls_of demo_fw demo_cfg) (0 + 1) = Inr (now_cls_high demo_prepared)"
proof -
  have h1: "EvRoidb 0 ''2007'' ''trainvalStep0a'' [''bg'', ''cat''] ''.jpg''
      \<in> set (fst (main demo_fw demo_cfg demo_args))"
    by (simp add: demo_events demo_trace_def)
  have h2: "EvLoader 0 2 2 \<in> set (fst (main demo_fw demo_cfg demo_args))"
    by (simp add: demo_events demo_trace_def)
  have h3: "EvNet 0 (Resnet 101) [''bg'', ''cat'', ''dog''] False 0
      \<in> set (fst (main demo_fw demo_cfg demo_args))"
    by (simp add: demo_events demo_trace_def)
  note h4 = demo_prepare
  from classes_of_a_group [of 0 "''2007''" "''trainvalStep0a''" "[''bg'', ''cat'']" "''.jpg''"
      demo_fw demo_cfg demo_args 2 2 "Resnet 101" "[''bg'', ''cat'', ''dog'']" False 0
      "take 6 (tl demo_trace)" demo_prepared]
    h1 h2 h3 h4
  show ?thesis by blast
qed

section \<open>The detector a group starts from\<close>

text \<open>
  Claim C1, as stated, says that the detector trained by group \<open>g\<close> is the one group
  \<open>g + 1\<close> starts from. On the small instance group 0 leaves a detector that has received
  6 steps (it is the one stored in its checkpoint), and group 1 starts, and runs its first
  iteration, on a detector that has received none.
\<close>

theorem detector_carried_over_counterexample:
  "concat (map final_models_of (fst (main demo_fw demo_cfg demo_args))) = [(0, 6), (1, 9)] \<and>
   concat (map start_models_of (fst (main demo_fw demo_cfg demo_args))) = [(0, 0), (1, 0)] \<and>
   EvIter 1 0 0 0 (0, 0) 27 \<in> set (fst (main demo_fw demo_cfg demo_args))"
  by (simp add: demo_events demo_trace_def demo_ck_def)

text \<open>
  Claim C1, amended. In every run and for every group \<open>g\<close>: the detector is constructed anew
  by the call of lines 114 to 118 (the same call in every group), and the detector that
  \<open>fasterRCNN.train()\<close> is called on, and that iteration 0 of epoch 0 runs, is that new
  detector after \<open>create_architecture()\<close> and the placement on the device. Nothing of what
  the previous group trained enters it. What the group trains goes to its checkpoint only:
  every checkpoint saved for a group stores the detector and the optimizer that the epoch
  loop of that group ended with (the detector unwrapped by \<open>.module\<close> under \<open>cfg.MGPU\<close>), and
  an iteration leaves the detector and the optimizer as its backward pass and
  \<open>optimizer.step()\<close> returned them.
\<close>

theorem every_group_starts_from_a_new_detector:
  "(EvNet g a cs cag m0 \<in> set (fst (main fw cfg args)) \<longrightarrow> get_net fw cfg args = Inr (a, m0))
   \<and> (EvTrainMode g m \<in> set (fst (main fw cfg args)) \<longrightarrow>
        (\<exists>a' m0'. get_net fw cfg args = Inr (a', m0') \<and> m = fw_train fw (place_net fw cfg m0')))
   \<and> (EvIter g 0 0 m' b l \<in> set (fst (main fw cfg args)) \<longrightarrow>
        (\<exists>a' m0'. get_net fw cfg args = Inr (a', m0') \<and> m' = fw_train fw (place_net fw cfg m0')))
   \<and> (EvSave g1 n ck \<in> set (fst (main fw cfg args)) \<longrightarrow>
        (\<exists>t0 p t1 st. group_prepare fw cfg args (group_cls_of fw cfg) g1 = (t0, Inr p) \<and>
            train_epochs fw cfg args g1 p = (t1, Inr st) \<and>
            saved_model fw cfg (fasterRCNN st) = Inr (ck_model ck) \<and>
            ck_optimizer ck = optimizer st))
   \<and> (train_iter fw cfg args g2 p2 e i s = (t2, Inr s') \<longrightarrow>
        (fasterRCNN s', optimizer s')
          = fw_backward_step fw (fasterRCNN s) (optimizer s)
              (fw_next_batch fw (roidb p2) (TRAIN_BATCH_SIZE cfg) (now_cls_high p2) e i)
              (iter_loss fw (now_cls_high p2)
                 (fw_forward fw (fasterRCNN s)
                    (fw_next_batch fw (roidb p2) (TRAIN_BATCH_SIZE cfg) (now_cls_high p2) e i)))
              (args_net args = ''vgg16''))"
proof -
  have 1: "get_net fw cfg args = Inr (a, m0)"
    if a: "EvNet g a cs cag m0 \<in> set (fst (main fw cfg args))"
  proof -
    from main_prepare_events [OF a] obtain g' where
      "EvNet g a cs cag m0 \<in> set (fst (group_prepare fw cfg args (group_cls_of fw cfg) g'))"
      by auto
    from group_prepare_events [OF this] show ?thesis by auto
  qed
  have 2: "\<exists>a' m0'. get_net fw cfg args = Inr (a', m0') \<and> m = fw_train fw (place_net fw cfg m0')"
    if a: "EvTrainMode g m \<in> set (fst (main fw cfg args))"
  proof -
    from main_prepare_events [OF a] obtain g' where
      "EvTrainMode g m \<in> set (fst (group_prepare fw cfg args (group_cls_of fw cfg) g'))"
      by auto
    from group_prepare_events [OF this] show ?thesis by auto
  qed
  have 3: "\<exists>a' m0'. get_net fw cfg args = Inr (a', m0') \<and> m' = fw_train fw (place_net fw cfg m0')"
    if a: "EvIter g 0 0 m' b l \<in> set (fst (main fw cfg args))"
  proof -
    from main_group_events [OF a] obtain dir cm g' where
      gb: "EvIter g 0 0 m' b l \<in> set (fst (group_body fw cfg args cm (init_class_proto cfg) dir
                                     (group_cls_of fw cfg) g'))"
      by auto
    from group_body_events [OF gb] show ?thesis
    proof (elim disjE exE conjE)
      assume "EvIter g 0 0 m' b l \<in> set (fst (group_prepare fw cfg args (group_cls_of fw cfg) g'))"
      from group_prepare_events [OF this] show ?thesis by auto
    next
      fix t0 p
      assume p: "group_prepare fw cfg args (group_cls_of fw cfg) g' = (t0, Inr p)"
        and "EvIter g 0 0 m' b l \<in> set (fst (train_epochs fw cfg args g' p))"
      from first_iter_model [OF this(2)] have "m' = fasterRCNN (start_state p)" .
      with group_prepare_Inr [OF p] show ?thesis by auto
    next
      fix t0 p t1 st
      assume "EvIter g 0 0 m' b l \<in> set (fst (group_save fw cfg args cm (init_class_proto cfg) dir g' st))"
      from group_save_events [OF this] show ?thesis by auto
    qed
  qed
  note 4 = main_save_events [of g1 n ck fw cfg args]
  note 5 = train_iter_step [of fw cfg args g2 p2 e i s t2 s']
  from 1 2 3 4 5 show ?thesis by blast
qed

theorem every_group_starts_from_a_new_detector_witness:
  "EvNet 1 (Resnet 101) [''bg'', ''cat'', ''dog''] False 0
      \<in> set (fst (main demo_fw demo_cfg demo_args)) \<and>
   get_net demo_fw demo_cfg demo_args = Inr (Resnet 101, 0) \<and>
   EvTrainMode 1 0 \<in> set (fst (main demo_fw demo_cfg demo_args)) \<and>
   EvIter 1 0 0 0 (0, 0) 27 \<in> set (fst (main demo_fw demo_cfg demo_args)) \<and>
   (\<exists>a' m0'. get_net demo_fw demo_cfg demo_args = Inr (a', m0') \<and>
       (0 :: nat) = fw_train demo_fw (place_net demo_fw demo_cfg m0')) \<and>
   EvSave 0 ''results/1/res101/2007/faster_rcnn_1_res101_2007_0.pth'' (demo_ck 6)
      \<in> set (fst (main demo_fw demo_cfg demo_args)) \<and>
   (\<exists>t0 p t1 st. group_prepare demo_fw demo_cfg demo_args (group_cls_of demo_fw demo_cfg) 0
                    = (t0, Inr p) \<and>
       train_epochs demo_fw demo_cfg demo_args 0 p = (t1, Inr st) \<and>
       saved_model demo_fw demo_cfg (fasterRCNN st) = Inr (ck_model (demo_ck 6)) \<and>
       ck_optimizer (demo_ck 6) = optimizer st) \<and>
   train_iter demo_fw demo_cfg demo_args 0 demo_prepared 0 0 (start_state demo_prepared)
     = ([EvIter 0 0 0 0 (0, 0) 18], Inr demo_after_first_iter) \<and>
   (fasterRCNN demo_after_first_iter, optimizer demo_after_first_iter)
     = fw_backward_step demo_fw (fasterRCNN (start_state demo_prepared))
         (optimizer (start_state demo_prepared))
         (fw_next_batch demo_fw (roidb demo_prepared) (TRAIN_BATCH_SIZE demo_cfg)
            (now_cls_high demo_prepared) 0 0)
         (iter_loss demo_fw (now_cls_high demo_prepared)
            (fw_forward demo_fw (fasterRCNN (start_state demo_prepared))
               (fw_next_batch demo_fw (roidb demo_prepared) (TRAIN_BATCH_SIZE demo_cfg)
                  (now_cls_high demo_prepared) 0 0)))
         (args_net demo_args = ''vgg16'')"
proof -
  note K = every_group_starts_from_a_new_detector
             [where fw = demo_fw and cfg = demo_cfg and args = demo_args]
  have h1: "EvNet 1 (Resnet 101) [''bg'', ''cat'', ''dog''] False 0
      \<in> set (fst (main demo_fw demo_cfg demo_args))"
    by (simp add: demo_events demo_trace_def)
  have h2: "EvTrainMode 1 0 \<in> set (fst (main demo_fw demo_cfg demo_args))"
    by (simp add: demo_events demo_trace_def)
  have h3: "EvIter 1 0 0 0 (0, 0) 27 \<in> set (fst (main demo_fw demo_cfg demo_args))"
    by (simp add: demo_events demo_trace_def)
  have h4: "EvSave 0 ''results/1/res101/2007/faster_rcnn_1_res101_2007_0.pth'' (demo_ck 6)
      \<in> set (fst (main demo_fw demo_cfg demo_args))"
    by (simp add: demo_events demo_trace_def)
  have c1: "get_net demo_fw demo_cfg demo_args = Inr (Resnet 101, 0)"
    by (rule K [where g = 1 and a = "Resnet 101" and cs = "[''bg'', ''cat'', ''dog'']"
                  and cag = False and ?m0.0 = 0, THEN conjunct1, THEN mp, OF h1])
  have c2: "\<exists>a' m0'. get_net demo_fw demo_cfg demo_args = Inr (a', m0') \<and>
       (0 :: nat) = fw_train demo_fw (place_net demo_fw demo_cfg m0')"
    by (rule K [where g = 1 and m = 0, THEN conjunct2, THEN conjunct1, THEN mp, OF h2])
  have c3: "\<exists>a' m0'. get_net demo_fw demo_cfg demo_args = Inr (a', m0') \<and>
       (0 :: nat) = fw_train demo_fw (place_net demo_fw demo_cfg m0')"
    by (rule K [where g = 1 and m' = 0 and b = "(0, 0)" and l = 27,
                THEN conjunct2, THEN conjunct2, THEN conjunct1, THEN mp, OF h3])
  have c4: "\<exists>t0 p t1 st. group_prepare demo_fw demo_cfg demo_args (group_cls_of demo_fw demo_cfg) 0
                    = (t0, Inr p) \<and>
       train_epochs demo_fw demo_cfg demo_args 0 p = (t1, Inr st) \<and>
       saved_model demo_fw demo_cfg (fasterRCNN st) = Inr (ck_model (demo_ck 6)) \<and>
       ck_optimizer (demo_ck 6) = optimizer st"
    by (rule K [where ?g1.0 = 0 and ck = "demo_ck 6"
                  and n = "''results/1/res101/2007/faster_rcnn_1_res101_2007_0.pth''",
                THEN conjunct2, THEN conjunct2, THEN conjunct2, THEN conjunct1, THEN mp, OF h4])
  have c5: "(fasterRCNN demo_after_first_iter, optimizer demo_after_first_iter)
     = fw_backward_step demo_fw (fasterRCNN (start_state demo_prepared))
         (optimizer (start_state demo_prepared))
         (fw_next_batch demo_fw (roidb demo_prepared) (TRAIN_BATCH_SIZE demo_cfg)
            (now_cls_high demo_prepared) 0 0)
         (iter_loss demo_fw (now_cls_high demo_prepared)
            (fw_forward demo_fw (fasterRCNN (start_state demo_prepared))
               (fw_next_batch demo_fw (roidb demo_prepared) (TRAIN_BATCH_SIZE demo_cfg)
                  (now_cls_high demo_prepared) 0 0)))
         (args_net demo_args = ''vgg16'')"
    by (rule K [where ?g2.0 = 0 and ?p2.0 = demo_prepared and e = 0 and i = 0
                  and s = "start_state demo_prepared" and ?t2.0 = "[EvIter 0 0 0 0 (0, 0) 18]"
                  and s' = demo_after_first_iter,
                THEN conjunct2, THEN conjunct2, THEN conjunct2, THEN conjunct2, THEN mp,
                OF demo_first_iter])
  show ?thesis by (intro conjI h1 c1 h2 h3 c2 h4 c4 demo_first_iter c5)
qed

section \<open>The optimizer of a group\<close>

text \<open>
  Claim C5. In every run and for every group: an optimizer constructed by the script is
  \<open>Adam(params)\<close> when \<open>cfg.TRAIN.OPTIMIZER\<close> is \<open>adam\<close> and
  \<open>SGD(params, momentum=cfg.TRAIN.MOMENTUM)\<close> when it is \<open>sgd\<close>; every call of
  \<open>set_learning_rate\<close> passes \<open>cfg.TRAIN.LEARNING_RATE\<close>, times 0.1 for \<open>adam\<close>, whatever
  earlier groups did to their rate; and a group that reaches its loops has made exactly
  these calls, in this order, right after constructing its detector: it starts with the
  new optimizer after \<open>set_learning_rate\<close> and with the script's \<open>lr\<close> at that rate.
\<close>

theorem fresh_optimizer_in_every_group:
  "(EvOptimizer g k ps opt \<in> set (fst (main fw cfg args)) \<longrightarrow>
      (TRAIN_OPTIMIZER cfg = ''adam'' \<and> k = Adam \<and> opt = fw_Adam fw ps) \<or>
      (TRAIN_OPTIMIZER cfg = ''sgd'' \<and> k = SGD (TRAIN_MOMENTUM cfg) \<and>
         opt = fw_SGD fw ps (TRAIN_MOMENTUM cfg)))
   \<and> (EvSetLR g2 l \<in> set (fst (main fw cfg args)) \<longrightarrow>
         l = (if TRAIN_OPTIMIZER cfg = ''adam'' then TRAIN_LEARNING_RATE cfg * (1 / 10)
              else TRAIN_LEARNING_RATE cfg))
   \<and> (group_prepare fw cfg args (group_cls_of fw cfg) g3 = (t, Inr p) \<longrightarrow>
         (\<exists>a m0 k' opt0.
            take 4 t = [EvNet g3 a (CLASSES cfg) (args_class_agnostic args) m0,
                        EvOptimizer g3 k' (group_params fw cfg m0) opt0,
                        EvSetLR g3 (initial_lr cfg),
                        EvTrainMode g3 (fw_train fw (place_net fw cfg m0))] \<and>
            optimizer (start_state p) = fw_set_learning_rate fw opt0 (initial_lr cfg) \<and>
            lr (start_state p) = initial_lr cfg))"
proof -
  have 1: "(TRAIN_OPTIMIZER cfg = ''adam'' \<and> k = Adam \<and> opt = fw_Adam fw ps) \<or>
      (TRAIN_OPTIMIZER cfg = ''sgd'' \<and> k = SGD (TRAIN_MOMENTUM cfg) \<and>
         opt = fw_SGD fw ps (TRAIN_MOMENTUM cfg))"
    if a: "EvOptimizer g k ps opt \<in> set (fst (main fw cfg args))"
  proof -
    from main_prepare_events [OF a] obtain g' where
      "EvOptimizer g k ps opt \<in> set (fst (group_prepare fw cfg args (group_cls_of fw cfg) g'))"
      by auto
    from group_prepare_events [OF this] show ?thesis
      by (auto simp: get_optimizer_def split: if_splits)
  qed
  have 2: "l = (if TRAIN_OPTIMIZER cfg = ''adam'' then TRAIN_LEARNING_RATE cfg * (1 / 10)
              else TRAIN_LEARNING_RATE cfg)"
    if a: "EvSetLR g2 l \<in> set (fst (main fw cfg args))"
  proof -
    from main_prepare_events [OF a] obtain g' where
      "EvSetLR g2 l \<in> set (fst (group_prepare fw cfg args (group_cls_of fw cfg) g'))"
      by auto
    from group_prepare_events [OF this] show ?thesis
      by (auto simp: initial_lr_def)
  qed
  have 3: "\<exists>a m0 k' opt0.
            take 4 t = [EvNet g3 a (CLASSES cfg) (args_class_agnostic args) m0,
                        EvOptimizer g3 k' (group_params fw cfg m0) opt0,
                        EvSetLR g3 (initial_lr cfg),
                        EvTrainMode g3 (fw_train fw (place_net fw cfg m0))] \<and>
            optimizer (start_state p) = fw_set_learning_rate fw opt0 (initial_lr cfg) \<and>
            lr (start_state p) = initial_lr cfg"
    if "group_prepare fw cfg args (group_cls_of fw cfg) g3 = (t, Inr p)"
    using group_prepare_Inr [OF that] by auto
  from 1 2 3 show ?thesis by blast
qed

theorem fresh_optimizer_in_every_group_witness:
  "EvOptimizer 1 (SGD 1) demo_params 0 \<in> set (fst (main demo_fw demo_cfg demo_args)) \<and>
   EvAdjust 0 2 (1 / 2) \<in> set (fst (main demo_fw demo_cfg demo_args)) \<and>
   EvSetLR 1 1 \<in> set (fst (main demo_fw demo_cfg demo_args)) \<and>
   group_prepare demo_fw demo_cfg demo_args (group_cls_of demo_fw demo_cfg) 0
     = (take 6 (tl demo_trace), Inr demo_prepared) \<and>
   ((TRAIN_OPTIMIZER demo_cfg = ''adam'' \<and> SGD 1 = Adam \<and> (0 :: real) = fw_Adam demo_fw demo_params) \<or>
    (TRAIN_OPTIMIZER demo_cfg = ''sgd'' \<and> SGD 1 = SGD (TRAIN_MOMENTUM demo_cfg) \<and>
       (0 :: real) = fw_SGD demo_fw demo_params (TRAIN_MOMENTUM demo_cfg))) \<and>
   (1 :: real) = (if TRAIN_OPTIMIZER demo_cfg = ''adam'' then TRAIN_LEARNING_RATE demo_cfg * (1 / 10)
                  else TRAIN_LEARNING_RATE demo_cfg) \<and>
   optimizer (start_state demo_prepared) = (1 :: real) \<and> lr (start_state demo_prepared) = 1"
proof -
  have h1: "EvOptimizer 1 (SGD 1) demo_params 0 \<in> set (fst (main demo_fw demo_cfg demo_args))"
    and h0: "EvAdjust 0 2 (1 / 2) \<in> set (fst (main demo_fw demo_cfg demo_args))"
    and h2: "EvSetLR 1 1 \<in> set (fst (main demo_fw demo_cfg demo_args))"
    by (simp_all add: demo_events demo_trace_def)
  note h3 = demo_prepare
  have e: "optimizer (start_state demo_prepared) = (1 :: real)" "lr (start_state demo_prepared) = 1"
    by (simp_all add: demo_prepared_def)
  from fresh_optimizer_in_every_group
         [where g = 1 and k = "SGD 1" and ps = demo_params and opt = 0 and fw = demo_fw
            and cfg = demo_cfg and args = demo_args and ?g2.0 = 1 and l = 1 and ?g3.0 = 0
            and t = "take 6 (tl demo_trace)" and p = demo_prepared]
    h1 h2 h3
  have "((TRAIN_OPTIMIZER demo_cfg = ''adam'' \<and> SGD 1 = Adam \<and> (0 :: real) = fw_Adam demo_fw demo_params) \<or>
    (TRAIN_OPTIMIZER demo_cfg = ''sgd'' \<and> SGD 1 = SGD (TRAIN_MOMENTUM demo_cfg) \<and>
       (0 :: real) = fw_SGD demo_fw demo_params (TRAIN_MOMENTUM demo_cfg)))"
    and "(1 :: real) = (if TRAIN_OPTIMIZER demo_cfg = ''adam'' then TRAIN_LEARNING_RATE demo_cfg * (1 / 10)
                  else TRAIN_LEARNING_RATE demo_cfg)"
    by blast+
  with h0 h1 h2 h3 e show ?thesis by blast
qed

section \<open>The representation classifier and the prototypes\<close>

text \<open>
  Claim C10. \<open>class_means\<close> and \<open>class_proto\<close> are built once before the group loop and
  handed unchanged to every pass; every checkpoint the script saves stores the all-zero
  matrix of 2048 rows and \<open>cfg.NUM_CLASSES + 1\<close> columns as \<open>cls_means\<close> and
  \<open>cfg.CIOD.TOTAL_CLS + 1\<close> empty lists as \<open>cls_proto\<close>.
\<close>

theorem class_means_and_proto_never_change:
  assumes "EvSave g name ck \<in> set (fst (main fw cfg args))"
  shows "ck_cls_means ck = replicate 2048 (replicate (nat (NUM_CLASSES cfg + 1)) 0) \<and>
         ck_cls_proto ck = replicate (nat (CIOD_TOTAL_CLS cfg + 1)) []"
proof -
  from main_group_events [OF assms] obtain dir cm g' where
    z: "torch_zeros 2048 (NUM_CLASSES cfg + 1) = Inr cm"
    and gb: "EvSave g name ck \<in> set (fst (group_body fw cfg args cm (init_class_proto cfg) dir
                                     (group_cls_of fw cfg) g'))"
    by auto
  have "ck_cls_means ck = cm \<and> ck_cls_proto ck = init_class_proto cfg"
    using group_body_events [OF gb]
  proof (elim disjE exE conjE)
    assume "EvSave g name ck \<in> set (fst (group_prepare fw cfg args (group_cls_of fw cfg) g'))"
    from group_prepare_events [OF this] show ?thesis by auto
  next
    fix t0 p
    assume "EvSave g name ck \<in> set (fst (train_epochs fw cfg args g' p))"
    from train_epochs_events [OF this] show ?thesis by auto
  next
    fix t0 p t1 st
    assume "EvSave g name ck \<in> set (fst (group_save fw cfg args cm (init_class_proto cfg) dir g' st))"
    from group_save_events [OF this] show ?thesis by auto
  qed
  with torch_zeros_Inr [OF z] show ?thesis by (simp add: init_class_proto_eq)
qed

theorem class_means_and_proto_never_change_witness:
  "EvSave 1 ''results/1/res101/2007/faster_rcnn_1_res101_2007_1.pth'' (demo_ck 9)
     \<in> set (fst (main demo_fw demo_cfg demo_args)) \<and>
   ck_cls_means (demo_ck 9) = replicate 2048 (replicate (nat (NUM_CLASSES demo_cfg + 1)) 0) \<and>
   ck_cls_proto (demo_ck 9) = replicate (nat (CIOD_TOTAL_CLS demo_cfg + 1)) []"
proof -
  have h: "EvSave 1 ''results/1/res101/2007/faster_rcnn_1_res101_2007_1.pth'' (demo_ck 9)
     \<in> set (fst (main demo_fw demo_cfg demo_args))"
    by (simp add: demo_events demo_trace_def)
  from class_means_and_proto_never_change [OF h] h show ?thesis by blast
qed

section \<open>The learning-rate schedule of a group\<close>

text \<open>
  Claim C4, as stated, ends with: after \<open>E\<close> epochs the rate equals the group's initial rate
  times \<open>gamma\<close> raised to the number of decay epochs below \<open>E\<close>. The script multiplies the
  rate by \<open>gamma\<close> once per decay epoch, and on doubles these products round: with the
  initial rate \<open>0.001\<close>, \<open>gamma = 0.1\<close> and a decay at epochs 1 and 2, the rate after three
  epochs is the double \<open>1e-05\<close>, which is neither \<open>0.001 * 0.1^2\<close> computed exactly nor that
  product computed on doubles (\<open>1.0000000000000003e-05\<close>).
\<close>

theorem decayed_rate_counterexample:
  "decay_epochs double_cfg 3 = [1, 2] \<and>
   final_lr (for_loop (epoch_body double_fw double_cfg demo_args 0 demo_prepared) (py_range 0 3)
               double_start) = Some (5902958103587057 / 2 ^ 69) \<and>
   lr double_start * TRAIN_LEARNING_RATE_DECAY_GAMMA double_cfg ^ length (decay_epochs double_cfg 3)
     \<noteq> 5902958103587057 / 2 ^ 69 \<and>
   double_mul (lr double_start)
      (double_mul (TRAIN_LEARNING_RATE_DECAY_GAMMA double_cfg)
         (TRAIN_LEARNING_RATE_DECAY_GAMMA double_cfg)) = 2951479051793529 / 2 ^ 68 \<and>
   (2951479051793529 / 2 ^ 68 :: real) \<noteq> 5902958103587057 / 2 ^ 69"
proof -
  have d: "decay_epochs double_cfg 3 = [1, 2]" by code_simp
  have s: "TRAIN_LEARNING_RATE_DECAY_STEP double_cfg \<noteq> 0" "TRAIN_DISPLAY double_cfg \<noteq> 0"
    by (simp_all add: double_cfg_def demo_cfg_def)
  have g: "TRAIN_LEARNING_RATE_DECAY_GAMMA double_cfg = float_0_1"
    "fw_float_mul double_fw = double_mul" "lr double_start = float_0_001"
    by (simp_all add: double_cfg_def double_fw_def double_start_def)
  from epoch_loop_rate [OF s, where fw = double_fw and args = demo_args and g = 0
                          and p = demo_prepared and E = 3 and ?st0.0 = double_start]
  obtain t st where
    run: "for_loop (epoch_body double_fw double_cfg demo_args 0 demo_prepared) (py_range 0 3)
            double_start = (t, Inr st)"
    and r: "lr st = fold (\<lambda>e r. fw_float_mul double_fw r (TRAIN_LEARNING_RATE_DECAY_GAMMA double_cfg))
                      (decay_epochs double_cfg 3) (lr double_start)"
    by blast
  from r have "lr st = double_mul (double_mul float_0_001 float_0_1) float_0_1"
    by (simp add: d g)
  then have "lr st = 5902958103587057 / 2 ^ 69"
    by (simp only: double_0_001_times_0_1 double_0_0001_times_0_1)
  with run have 1: "final_lr (for_loop (epoch_body double_fw double_cfg demo_args 0 demo_prepared)
                      (py_range 0 3) double_start) = Some (5902958103587057 / 2 ^ 69)"
    by (simp add: final_lr_def)
  have 2: "lr double_start * TRAIN_LEARNING_RATE_DECAY_GAMMA double_cfg
             ^ length (decay_epochs double_cfg 3) \<noteq> 5902958103587057 / 2 ^ 69"
    by (simp add: d g float_0_001_def float_0_1_def)
  have 3: "double_mul (lr double_start)
      (double_mul (TRAIN_LEARNING_RATE_DECAY_GAMMA double_cfg)
         (TRAIN_LEARNING_RATE_DECAY_GAMMA double_cfg)) = 2951479051793529 / 2 ^ 68"
    by (simp only: g double_0_1_times_0_1 double_0_001_times_0_01)
  have 4: "(2951479051793529 / 2 ^ 68 :: real) \<noteq> 5902958103587057 / 2 ^ 69" by simp
  show ?thesis by (intro conjI d 1 2 3 4)
qed



section \<open>Epochs and iterations of a group\<close>

text \<open>
  Claim C6. Take a group that reaches its loops, with a non-negative \<open>cfg.TRAIN.MAX_EPOCH\<close>,
  a positive \<open>cfg.TRAIN.BATCH_SIZE\<close>, and the decay step and display interval not zero.
  Its \<open>roidb\<close> is what \<open>combined_roidb\<close> returned for the group, \<open>train_size\<close> is its
  length, and the epoch loop completes; it has run the epochs \<open>0, ..., MAX_EPOCH - 1\<close>, each once
  and in order, so exactly \<open>MAX_EPOCH\<close> of them; every one of these epochs has run exactly
  \<open>len(roidb) // BATCH_SIZE\<close> iterations; and when \<open>len(roidb) < BATCH_SIZE\<close> no iteration
  has run at all.
\<close>

theorem epochs_and_iterations_of_a_group:
  assumes "group_prepare fw cfg args group_cls g = (t0, Inr p)"
    and "TRAIN_LEARNING_RATE_DECAY_STEP cfg \<noteq> 0" and "TRAIN_DISPLAY cfg \<noteq> 0"
    and "0 \<le> TRAIN_MAX_EPOCH cfg" and "0 < TRAIN_BATCH_SIZE cfg"
  shows "roidb p = fw_combined_roidb fw (args_dataset args) (group_split g)
                     (py_slice_to (CLASSES cfg) (now_cls_high p)) (EXT cfg) \<and>
         train_size p = int (fw_len fw (roidb p)) \<and>
         (\<exists>t st. train_epochs fw cfg args g p = (t, Inr st) \<and>
           concat (map epochs_of t) = map (\<lambda>e. (g, e)) (py_range 0 (TRAIN_MAX_EPOCH cfg)) \<and>
           int (length (concat (map epochs_of t))) = TRAIN_MAX_EPOCH cfg \<and>
           (\<forall>e. 0 \<le> e \<and> e < TRAIN_MAX_EPOCH cfg \<longrightarrow>
                int (length (concat (map (iters_of g e) t)))
                  = int (fw_len fw (roidb p)) div TRAIN_BATCH_SIZE cfg) \<and>
           (int (fw_len fw (roidb p)) < TRAIN_BATCH_SIZE cfg \<longrightarrow>
                (\<forall>g' e. concat (map (iters_of g' e) t) = [])))"
proof -
  let ?n = "int (fw_len fw (roidb p)) div TRAIN_BATCH_SIZE cfg"
  from group_prepare_Inr [OF assms(1)] have n: "iters_per_epoch p = ?n"
    and r: "roidb p = fw_combined_roidb fw (args_dataset args) (group_split g)
                     (py_slice_to (CLASSES cfg) (now_cls_high p)) (EXT cfg)"
    and ts: "train_size p = int (fw_len fw (roidb p))"
    by auto
  have n0: "0 \<le> ?n" using assms(5) by (simp add: pos_imp_zdiv_nonneg_iff)
  from epoch_loop_total [OF assms(2,3)] obtain t st where
    run: "train_epochs fw cfg args g p = (t, Inr st)"
    unfolding train_epochs_def by blast
  note ep = train_epochs_epochs [OF run]
  note it = train_epochs_iters [OF run]
  have 1: "int (length (concat (map epochs_of t))) = TRAIN_MAX_EPOCH cfg"
    using assms(4) by (simp add: ep length_py_range_0)
  have 2: "int (length (concat (map (iters_of g e) t))) = ?n"
    if "0 \<le> e \<and> e < TRAIN_MAX_EPOCH cfg" for e
    using that n0 by (simp add: it n length_py_range_0)
  have 3: "concat (map (iters_of g' e) t) = []" if "int (fw_len fw (roidb p)) < TRAIN_BATCH_SIZE cfg"
    for g' e
  proof -
    from that have "?n = 0" by simp
    then show ?thesis by (simp add: it n py_range_def)
  qed
  from run ep 1 2 3 have "\<exists>t st. train_epochs fw cfg args g p = (t, Inr st) \<and>
           concat (map epochs_of t) = map (\<lambda>e. (g, e)) (py_range 0 (TRAIN_MAX_EPOCH cfg)) \<and>
           int (length (concat (map epochs_of t))) = TRAIN_MAX_EPOCH cfg \<and>
           (\<forall>e. 0 \<le> e \<and> e < TRAIN_MAX_EPOCH cfg \<longrightarrow>
                int (length (concat (map (iters_of g e) t)))
                  = int (fw_len fw (roidb p)) div TRAIN_BATCH_SIZE cfg) \<and>
           (int (fw_len fw (roidb p)) < TRAIN_BATCH_SIZE cfg \<longrightarrow>
                (\<forall>g' e. concat (map (iters_of g' e) t) = []))"
    by blast
  with r ts show ?thesis by blast
qed

theorem epochs_and_iterations_of_a_group_witness:
  "group_prepare demo_fw demo_cfg demo_args (group_cls_of demo_fw demo_cfg) 0
     = (take 6 (tl demo_trace), Inr demo_prepared) \<and>
   TRAIN_LEARNING_RATE_DECAY_STEP demo_cfg \<noteq> 0 \<and> TRAIN_DISPLAY demo_cfg \<noteq> 0 \<and>
   0 \<le> TRAIN_MAX_EPOCH demo_cfg \<and> 0 < TRAIN_BATCH_SIZE demo_cfg \<and>
   (\<exists>t st. train_epochs demo_fw demo_cfg demo_args 0 demo_prepared = (t, Inr st) \<and>
      concat (map epochs_of t) = [(0, 0), (0, 1), (0, 2)] \<and>
      (\<forall>e. 0 \<le> e \<and> e < 3 \<longrightarrow> int (length (concat (map (iters_of 0 e) t))) = 2))"
proof -
  have h: "TRAIN_LEARNING_RATE_DECAY_STEP demo_cfg \<noteq> 0" "TRAIN_DISPLAY demo_cfg \<noteq> 0"
    "0 \<le> TRAIN_MAX_EPOCH demo_cfg" "0 < TRAIN_BATCH_SIZE demo_cfg"
    by (simp_all add: demo_cfg_def)
  have v: "TRAIN_MAX_EPOCH demo_cfg = 3" "TRAIN_BATCH_SIZE demo_cfg = 2"
    "fw_len demo_fw (roidb demo_prepared) = 4" "py_range 0 3 = [0, 1, 2]"
    by (simp_all add: demo_cfg_def demo_fw_def demo_prepared_def py_range_def upt_conv_Cons)
  from epochs_and_iterations_of_a_group [OF demo_prepare h, THEN conjunct2, THEN conjunct2]
  have "\<exists>t st. train_epochs demo_fw demo_cfg demo_args 0 demo_prepared = (t, Inr st) \<and>
      concat (map epochs_of t) = [(0, 0), (0, 1), (0, 2)] \<and>
      (\<forall>e. 0 \<le> e \<and> e < 3 \<longrightarrow> int (length (concat (map (iters_of 0 e) t))) = 2)"
    by (simp add: v) blast
  with demo_prepare h show ?thesis by blast
qed

section \<open>Unknown network, unknown optimizer\<close>

text \<open>
  Claim C9, as stated, says that a group raises \<open>KeyError\<close> before any training exactly when
  the configuration is unsupported, with \<open>Unknown Optimizer\<close> when the optimizer is neither
  \<open>adam\<close> nor \<open>sgd\<close>. With the optimizer \<open>rmsprop\<close> and the network \<open>res\<close>, which starts
  with \<open>res\<close>, the script ends with the \<open>ValueError\<close> of \<open>int('')\<close> and no \<open>KeyError\<close>.
\<close>

theorem key_error_counterexample:
  "\<not> optimizer_known (demo_cfg\<lparr>TRAIN_OPTIMIZER := ''rmsprop''\<rparr>) \<and>
   net_known (demo_args\<lparr>args_net := ''res''\<rparr>) \<and>
   main demo_fw (demo_cfg\<lparr>TRAIN_OPTIMIZER := ''rmsprop''\<rparr>) (demo_args\<lparr>args_net := ''res''\<rparr>)
     = ([EvMakedirs ''results/1/res/2007''], Inl ValueError)"
  by code_simp

text \<open>
  Claim C9, amended. In a group whose two entries of \<open>group_cls\<close> exist, the second not
  being 1 (line 111 divides by it minus 1):
  \<^item> a network that is neither \<open>vgg16\<close> nor starts with \<open>res\<close> ends the group with
    \<open>KeyError("Unknown Network")\<close> before any call;
  \<^item> when the detector was constructed, which for a name starting with \<open>res\<close> needs
    \<open>int(args.net[3:])\<close> to succeed, an optimizer that is neither \<open>adam\<close> nor \<open>sgd\<close> ends the
    group with \<open>KeyError("Unknown Optimizer")\<close>, the construction of the detector being the
    only call made.

  Conversely a group ends with a \<open>KeyError\<close> only in these two ways, so always before any
  training.
\<close>

theorem key_errors_of_a_group:
  "(py_index group_cls g = Inr low \<and> py_index group_cls (g + 1) = Inr high \<and> high \<noteq> 1 \<and>
    \<not> net_known args \<longrightarrow>
      group_body fw cfg args cm cp dir group_cls g = ([], Inl (KeyError ''Unknown Network'')))
   \<and> (py_index group_cls g = Inr low \<and> py_index group_cls (g + 1) = Inr high \<and> high \<noteq> 1 \<and>
       get_net fw cfg args = Inr (a, m0) \<and> \<not> optimizer_known cfg \<longrightarrow>
         group_body fw cfg args cm cp dir group_cls g
           = ([EvNet g a (CLASSES cfg) (args_class_agnostic args) m0],
              Inl (KeyError ''Unknown Optimizer'')))
   \<and> (group_body fw cfg args cm cp dir group_cls g = (t, Inl (KeyError msg)) \<longrightarrow>
         (msg = ''Unknown Network'' \<and> \<not> net_known args \<and> t = []) \<or>
         (msg = ''Unknown Optimizer'' \<and> \<not> optimizer_known cfg \<and>
            (\<exists>a' m0'. get_net fw cfg args = Inr (a', m0') \<and>
               t = [EvNet g a' (CLASSES cfg) (args_class_agnostic args) m0'])))"
proof -
  have 1: "group_body fw cfg args cm cp dir group_cls g = ([], Inl (KeyError ''Unknown Network''))"
    if "py_index group_cls g = Inr low \<and> py_index group_cls (g + 1) = Inr high \<and> high \<noteq> 1 \<and>
        \<not> net_known args"
    using that by (simp add: group_body_def group_prepare_unknown_net [of group_cls g low high])
  have 2: "group_body fw cfg args cm cp dir group_cls g
           = ([EvNet g a (CLASSES cfg) (args_class_agnostic args) m0],
              Inl (KeyError ''Unknown Optimizer''))"
    if "py_index group_cls g = Inr low \<and> py_index group_cls (g + 1) = Inr high \<and> high \<noteq> 1 \<and>
       get_net fw cfg args = Inr (a, m0) \<and> \<not> optimizer_known cfg"
    using that
    by (simp add: group_body_def group_prepare_unknown_optimizer [of group_cls g low high])
  have 3: "(msg = ''Unknown Network'' \<and> \<not> net_known args \<and> t = []) \<or>
         (msg = ''Unknown Optimizer'' \<and> \<not> optimizer_known cfg \<and>
            (\<exists>a' m0'. get_net fw cfg args = Inr (a', m0') \<and>
               t = [EvNet g a' (CLASSES cfg) (args_class_agnostic args) m0']))"
    if b: "group_body fw cfg args cm cp dir group_cls g = (t, Inl (KeyError msg))"
  proof -
    from b [unfolded group_body_def bind_w_Inl]
    consider "group_prepare fw cfg args group_cls g = (t, Inl (KeyError msg))"
      | p t1 where "train_epochs fw cfg args g p = (t1, Inl (KeyError msg))"
      | st t2 where "group_save fw cfg args cm cp dir g st = (t2, Inl (KeyError msg))"
      by blast
    then show ?thesis
    proof cases
      case 1
      from group_prepare_KeyError [OF this] show ?thesis .
    next
      case 2
      from train_epochs_error [OF this] show ?thesis by simp
    next
      case 3
      from group_save_error [OF this] show ?thesis by simp
    qed
  qed
  from 1 2 3 show ?thesis by blast
qed

theorem key_errors_of_a_group_witness:
  "py_index [1, 2, 3 :: int] 0 = Inr 1 \<and> py_index [1, 2, 3 :: int] (0 + 1) = Inr 2 \<and>
   (2 :: int) \<noteq> 1 \<and>
   \<not> net_known (demo_args\<lparr>args_net := ''alexnet''\<rparr>) \<and>
   get_net demo_fw demo_cfg demo_args = Inr (Resnet 101, 0) \<and>
   \<not> optimizer_known (demo_cfg\<lparr>TRAIN_OPTIMIZER := ''rmsprop''\<rparr>) \<and>
   group_body demo_fw demo_cfg (demo_args\<lparr>args_net := ''alexnet''\<rparr>) [] [] ''out'' [1, 2, 3] 0
     = ([], Inl (KeyError ''Unknown Network'')) \<and>
   group_body demo_fw (demo_cfg\<lparr>TRAIN_OPTIMIZER := ''rmsprop''\<rparr>) demo_args [] [] ''out'' [1, 2, 3] 0
     = ([EvNet 0 (Resnet 101) [''bg'', ''cat'', ''dog''] False 0],
        Inl (KeyError ''Unknown Optimizer'')) \<and>
   ((''Unknown Network'' = ''Unknown Network'' \<and> \<not> net_known (demo_args\<lparr>args_net := ''alexnet''\<rparr>) \<and>
       ([] :: (nat, real, int \<times> int) event list) = []) \<or>
    (''Unknown Network'' = ''Unknown Optimizer'' \<and> \<not> optimizer_known demo_cfg \<and>
       (\<exists>a' m0'. get_net demo_fw demo_cfg (demo_args\<lparr>args_net := ''alexnet''\<rparr>) = Inr (a', m0') \<and>
          ([] :: (nat, real, int \<times> int) event list)
            = [EvNet 0 a' (CLASSES demo_cfg)
                  (args_class_agnostic (demo_args\<lparr>args_net := ''alexnet''\<rparr>)) m0'])))"
proof -
  have h: "py_index [1, 2, 3 :: int] 0 = Inr 1" "py_index [1, 2, 3 :: int] (0 + 1) = Inr 2"
    "(2 :: int) \<noteq> 1" "\<not> net_known (demo_args\<lparr>args_net := ''alexnet''\<rparr>)"
    "\<not> optimizer_known (demo_cfg\<lparr>TRAIN_OPTIMIZER := ''rmsprop''\<rparr>)"
    by code_simp+
  have n: "get_net demo_fw demo_cfg demo_args = Inr (Resnet 101, 0)"
    "get_net demo_fw (demo_cfg\<lparr>TRAIN_OPTIMIZER := ''rmsprop''\<rparr>) demo_args = Inr (Resnet 101, 0)"
    by code_simp+
  have c: "CLASSES (demo_cfg\<lparr>TRAIN_OPTIMIZER := ''rmsprop''\<rparr>) = [''bg'', ''cat'', ''dog'']"
    "args_class_agnostic demo_args = False"
    by (simp_all add: demo_cfg_def demo_args_def)
  have 1: "group_body demo_fw demo_cfg (demo_args\<lparr>args_net := ''alexnet''\<rparr>) [] [] ''out'' [1, 2, 3] 0
     = ([], Inl (KeyError ''Unknown Network''))"
    by (rule key_errors_of_a_group
         [where group_cls = "[1, 2, 3]" and g = 0 and low = 1 and high = 2
            and args = "demo_args\<lparr>args_net := ''alexnet''\<rparr>" and fw = demo_fw and cfg = demo_cfg
            and cm = "[]" and cp = "[]" and dir = "''out''", THEN conjunct1, THEN mp])
       (intro conjI h)
  have 2: "group_body demo_fw (demo_cfg\<lparr>TRAIN_OPTIMIZER := ''rmsprop''\<rparr>) demo_args [] [] ''out'' [1, 2, 3] 0
     = ([EvNet 0 (Resnet 101) [''bg'', ''cat'', ''dog''] False 0],
        Inl (KeyError ''Unknown Optimizer''))"
    by (rule key_errors_of_a_group
         [where group_cls = "[1, 2, 3]" and g = 0 and low = 1 and high = 2
            and args = demo_args and fw = demo_fw and cfg = "demo_cfg\<lparr>TRAIN_OPTIMIZER := ''rmsprop''\<rparr>"
            and a = "Resnet 101" and ?m0.0 = 0
            and cm = "[]" and cp = "[]" and dir = "''out''",
          THEN conjunct2, THEN conjunct1, THEN mp, unfolded c])
       (intro conjI h n)
  have 3: "(''Unknown Network'' = ''Unknown Network'' \<and> \<not> net_known (demo_args\<lparr>args_net := ''alexnet''\<rparr>) \<and>
       ([] :: (nat, real, int \<times> int) event list) = []) \<or>
    (''Unknown Network'' = ''Unknown Optimizer'' \<and> \<not> optimizer_known demo_cfg \<and>
       (\<exists>a' m0'. get_net demo_fw demo_cfg (demo_args\<lparr>args_net := ''alexnet''\<rparr>) = Inr (a', m0') \<and>
          ([] :: (nat, real, int \<times> int) event list)
            = [EvNet 0 a' (CLASSES demo_cfg)
                  (args_class_agnostic (demo_args\<lparr>args_net := ''alexnet''\<rparr>)) m0']))"
    by (rule key_errors_of_a_group
         [where group_cls = "[1, 2, 3]" and g = 0
            and args = "demo_args\<lparr>args_net := ''alexnet''\<rparr>" and fw = demo_fw and cfg = demo_cfg
            and cm = "[]" and cp = "[]" and dir = "''out''" and t = "[]"
            and msg = "''Unknown Network''", THEN conjunct2, THEN conjunct2, THEN mp, OF 1])
  show ?thesis by (intro conjI h n 1 2 3)
qed

section \<open>The groups the loop visits\<close>

text \<open>
  Claim C8. With \<open>--group -1\<close> the loop visits the groups \<open>0, ..., cfg.CIOD.GROUPS - 1\<close>, with
  any other value \<open>g\<close> the single group \<open>g\<close>. In every run the groups whose training was
  entered (\<open>fasterRCNN.train()\<close> was called) are an initial part of that list, in its order,
  and in a run that ends without an exception they are the whole list.
\<close>

theorem groups_visited_in_order:
  "(\<exists>k. concat (map trained_of (fst (main fw cfg args))) = take k (groups_to_run cfg args))
   \<and> (main fw cfg args = (t, Inr u) \<longrightarrow> concat (map trained_of t) = groups_to_run cfg args)
   \<and> (args_group args = - 1 \<longrightarrow> groups_to_run cfg args = map int [0..<nat (CIOD_GROUPS cfg)])
   \<and> (args_group args \<noteq> - 1 \<longrightarrow> groups_to_run cfg args = [args_group args])"
proof (intro conjI impI)
  show "\<exists>k. concat (map trained_of (fst (main fw cfg args))) = take k (groups_to_run cfg args)"
    by (rule main_trained_prefix)
next
  assume "main fw cfg args = (t, Inr u)"
  then show "concat (map trained_of t) = groups_to_run cfg args" by (rule main_trained_all)
next
  assume "args_group args = - 1"
  then show "groups_to_run cfg args = map int [0..<nat (CIOD_GROUPS cfg)]"
    by (simp add: groups_to_run_def group_bounds_def py_range_def)
next
  assume "args_group args \<noteq> - 1"
  then show "groups_to_run cfg args = [args_group args]"
    by (simp add: groups_to_run_def group_bounds_def py_range_def)
qed

theorem groups_visited_in_order_witness:
  "main demo_fw demo_cfg demo_args = (demo_trace, Inr ()) \<and>
   concat (map trained_of demo_trace) = groups_to_run demo_cfg demo_args \<and>
   args_group demo_args = - 1 \<and>
   groups_to_run demo_cfg demo_args = map int [0..<nat (CIOD_GROUPS demo_cfg)] \<and>
   groups_to_run demo_cfg demo_args = [0, 1] \<and>
   args_group (demo_args\<lparr>args_group := 1\<rparr>) \<noteq> - 1 \<and>
   groups_to_run demo_cfg (demo_args\<lparr>args_group := 1\<rparr>) = [args_group (demo_args\<lparr>args_group := 1\<rparr>)]"
proof -
  note K = groups_visited_in_order [where fw = demo_fw and cfg = demo_cfg]
  have a: "args_group demo_args = - 1" by (simp add: demo_args_def)
  have b: "args_group (demo_args\<lparr>args_group := 1\<rparr>) \<noteq> - 1" by simp
  have 1: "concat (map trained_of demo_trace) = groups_to_run demo_cfg demo_args"
    by (rule K [where args = demo_args and t = demo_trace and u = "()",
                THEN conjunct2, THEN conjunct1, THEN mp, OF demo_run])
  have 2: "groups_to_run demo_cfg demo_args = map int [0..<nat (CIOD_GROUPS demo_cfg)]"
    by (rule K [where args = demo_args, THEN conjunct2, THEN conjunct2, THEN conjunct1, THEN mp, OF a])
  have 3: "groups_to_run demo_cfg (demo_args\<lparr>args_group := 1\<rparr>)
             = [args_group (demo_args\<lparr>args_group := 1\<rparr>)]"
    by (rule K [where args = "demo_args\<lparr>args_group := 1\<rparr>",
                THEN conjunct2, THEN conjunct2, THEN conjunct2, THEN mp, OF b])
  have 4: "groups_to_run demo_cfg demo_args = [0, 1]"
    by code_simp
  show ?thesis by (intro conjI demo_run 1 2 3 4 a b)
qed

section \<open>Checkpoints\<close>

text \<open>
  Claim C7. A run that ends without an exception consists of \<open>os.makedirs\<close> and then one
  segment per group of the loop, in order; each segment ends with the one call of
  \<open>save_checkpoint\<close> it contains, so after the group's epochs, and that call writes to
  \<open>os.path.join(save_dir, str(session), net, dataset, 'faster_rcnn_{session}_{net}_{dataset}_{group}.pth')\<close>
  a checkpoint whose \<open>epoch\<close> is \<open>cfg.TRAIN.MAX_EPOCH\<close>. A group that ends with an exception
  saves nothing. When \<open>save_dir\<close> is not empty and does not end with a separator, and \<open>net\<close>
  and \<open>dataset\<close> are plain components, that path is
  \<open>save_dir/session/net/dataset/faster_rcnn_{session}_{net}_{dataset}_{group}.pth\<close> letter for
  letter.
\<close>

theorem one_checkpoint_per_group:
  "(main fw cfg args = (t, Inr u) \<longrightarrow>
      (\<exists>s tr. args_save_dir args = SaveDirStr s \<and>
         t = EvMakedirs (path_join s [str_int (args_session args), args_net args, args_dataset args])
             # concat (map tr (groups_to_run cfg args)) \<and>
         (\<forall>g \<in> set (groups_to_run cfg args). \<exists>t' ck.
             tr g = t' @ [EvSave g (path_join s [str_int (args_session args), args_net args,
                                        args_dataset args, checkpoint_file args g]) ck] \<and>
             concat (map saves_of t') = [] \<and> ck_epoch ck = TRAIN_MAX_EPOCH cfg)))
   \<and> (group_body fw cfg args cm cp dir gc g1 = (tg, Inl err) \<longrightarrow> concat (map saves_of tg) = [])
   \<and> (s1 \<noteq> [] \<and> \<not> endswith_sep s1 \<and> plain (args_net args) \<and> plain (args_dataset args) \<longrightarrow>
        path_join s1 [str_int (args_session args), args_net args, args_dataset args,
                      checkpoint_file args g2]
          = s1 @ ''/'' @ str_int (args_session args) @ ''/'' @ args_net args @ ''/''
              @ args_dataset args @ ''/'' @ checkpoint_file args g2)"
proof (intro conjI impI)
  assume "main fw cfg args = (t, Inr u)"
  then show "\<exists>s tr. args_save_dir args = SaveDirStr s \<and>
         t = EvMakedirs (path_join s [str_int (args_session args), args_net args, args_dataset args])
             # concat (map tr (groups_to_run cfg args)) \<and>
         (\<forall>g \<in> set (groups_to_run cfg args). \<exists>t' ck.
             tr g = t' @ [EvSave g (path_join s [str_int (args_session args), args_net args,
                                        args_dataset args, checkpoint_file args g]) ck] \<and>
             concat (map saves_of t') = [] \<and> ck_epoch ck = TRAIN_MAX_EPOCH cfg)"
    by (rule main_checkpoints)
next
  assume "group_body fw cfg args cm cp dir gc g1 = (tg, Inl err)"
  then show "concat (map saves_of tg) = []" by (rule group_body_Inl_no_saves)
next
  assume a: "s1 \<noteq> [] \<and> \<not> endswith_sep s1 \<and> plain (args_net args) \<and> plain (args_dataset args)"
  show "path_join s1 [str_int (args_session args), args_net args, args_dataset args,
                      checkpoint_file args g2]
          = s1 @ ''/'' @ str_int (args_session args) @ ''/'' @ args_net args @ ''/''
              @ args_dataset args @ ''/'' @ checkpoint_file args g2"
    using a by (intro path_join_plain plain_str_int checkpoint_file_not_absolute) simp_all
qed

theorem one_checkpoint_per_group_witness:
  "main demo_fw demo_cfg demo_args = (demo_trace, Inr ()) \<and>
   (\<exists>s tr. args_save_dir demo_args = SaveDirStr s \<and>
      demo_trace
        = EvMakedirs (path_join s [str_int (args_session demo_args), args_net demo_args,
                                   args_dataset demo_args])
          # concat (map tr (groups_to_run demo_cfg demo_args)) \<and>
      (\<forall>g \<in> set (groups_to_run demo_cfg demo_args). \<exists>t' ck.
          tr g = t' @ [EvSave g (path_join s [str_int (args_session demo_args), args_net demo_args,
                                     args_dataset demo_args, checkpoint_file demo_args g]) ck] \<and>
          concat (map saves_of t') = [] \<and> ck_epoch ck = TRAIN_MAX_EPOCH demo_cfg)) \<and>
   group_body demo_fw (demo_cfg\<lparr>TRAIN_DISPLAY := 0\<rparr>) demo_args [] [] ''out'' [1, 2, 3] 0
     = (take 8 (tl demo_trace), Inl ZeroDivisionError) \<and>
   concat (map saves_of (take 8 (tl demo_trace))) = [] \<and>
   (''results'' \<noteq> [] \<and> \<not> endswith_sep ''results'' \<and> plain (args_net demo_args) \<and>
    plain (args_dataset demo_args)) \<and>
   path_join ''results'' [str_int (args_session demo_args), args_net demo_args,
                          args_dataset demo_args, checkpoint_file demo_args 0]
     = ''results'' @ ''/'' @ str_int (args_session demo_args) @ ''/'' @ args_net demo_args @ ''/''
         @ args_dataset demo_args @ ''/'' @ checkpoint_file demo_args 0 \<and>
   ''results'' @ ''/'' @ str_int (args_session demo_args) @ ''/'' @ args_net demo_args @ ''/''
         @ args_dataset demo_args @ ''/'' @ checkpoint_file demo_args 0
     = ''results/1/res101/2007/faster_rcnn_1_res101_2007_0.pth''"
proof -
  have a: "''results'' \<noteq> [] \<and> \<not> endswith_sep ''results'' \<and> plain (args_net demo_args) \<and>
    plain (args_dataset demo_args)"
    by code_simp
  have 1: "\<exists>s tr. args_save_dir demo_args = SaveDirStr s \<and>
      demo_trace
        = EvMakedirs (path_join s [str_int (args_session demo_args), args_net demo_args,
                                   args_dataset demo_args])
          # concat (map tr (groups_to_run demo_cfg demo_args)) \<and>
      (\<forall>g \<in> set (groups_to_run demo_cfg demo_args). \<exists>t' ck.
          tr g = t' @ [EvSave g (path_join s [str_int (args_session demo_args), args_net demo_args,
                                     args_dataset demo_args, checkpoint_file demo_args g]) ck] \<and>
          concat (map saves_of t') = [] \<and> ck_epoch ck = TRAIN_MAX_EPOCH demo_cfg)"
    by (rule one_checkpoint_per_group [where fw = demo_fw and cfg = demo_cfg and args = demo_args
              and t = demo_trace and u = "()", THEN conjunct1, THEN mp, OF demo_run])
  have 2: "concat (map saves_of (take 8 (tl demo_trace))) = []"
    by (rule one_checkpoint_per_group [where fw = demo_fw and cfg = "demo_cfg\<lparr>TRAIN_DISPLAY := 0\<rparr>"
              and args = demo_args and cm = "[]" and cp = "[]" and dir = "''out''"
              and gc = "[1, 2, 3]" and ?g1.0 = 0 and tg = "take 8 (tl demo_trace)"
              and err = ZeroDivisionError,
            THEN conjunct2, THEN conjunct1, THEN mp, OF demo_failing_group])
  have 3: "path_join ''results'' [str_int (args_session demo_args), args_net demo_args,
                          args_dataset demo_args, checkpoint_file demo_args 0]
     = ''results'' @ ''/'' @ str_int (args_session demo_args) @ ''/'' @ args_net demo_args @ ''/''
         @ args_dataset demo_args @ ''/'' @ checkpoint_file demo_args 0"
    by (rule one_checkpoint_per_group [where args = demo_args and ?s1.0 = "''results''"
              and ?g2.0 = 0, THEN conjunct2, THEN conjunct2, THEN mp, OF a])
  have 4: "''results'' @ ''/'' @ str_int (args_session demo_args) @ ''/'' @ args_net demo_args @ ''/''
         @ args_dataset demo_args @ ''/'' @ checkpoint_file demo_args 0
     = ''results/1/res101/2007/faster_rcnn_1_res101_2007_0.pth''"
    by code_simp
  show ?thesis by (intro conjI demo_run 1 2 3 4 demo_failing_group a)
qed

end
